theory Spec2Isabelle
  imports Complex_Main
begin

section \<open>Scalars and fixed-size vectors\<close>

text \<open>
  The generated C++ is templated over \<open>Scalar\<close> (instantiated at \<open>double\<close> and
  \<open>float\<close>). Two readings of \<open>Scalar\<close> are used.

  The algebraic identities (the fused blocks of \<open>Pose3\<close> against the group operations, the
  round trip of \<open>Pose2\<close>, the round trip through storage) are statements about the formulas:
  there \<open>Scalar\<close> is \<^typ>\<open>real\<close> and \<open>std::sqrt\<close>, \<open>std::sin\<close>, \<open>std::cos\<close>,
  \<open>std::acos\<close>, \<open>std::max\<close>, \<open>std::min\<close> are \<^const>\<open>sqrt\<close>, \<^const>\<open>sin\<close>,
  \<^const>\<open>cos\<close>, \<^const>\<open>arccos\<close>, \<^const>\<open>max\<close>, \<^const>\<open>min\<close>.

  The statements whose truth depends on how \<open>Scalar\<close> rounds (the conversion of the image
  size in \<open>Camera::InView\<close>, the norm in \<open>IsApprox\<close>, the guards of \<open>FromTangent\<close> and
  of \<open>ToTangent\<close>) are made with the rounding written out: the conversion, the library
  call or the rounding of each arithmetic operation is a parameter of the model, and the
  IEEE 754 rounding to nearest, ties to even, to \<open>float\<close> and to \<open>double\<close> is defined
  below to instantiate it.

  In both readings a value of \<open>Scalar\<close> is a real number. Infinities and NaN are not
  values of the model: where the code can produce one (a division by zero, \<open>acos\<close>
  outside \<open>[-1, 1]\<close>, a norm that is not finite) the model returns an error.

  \<open>Eigen::Matrix<Scalar, n, 1>\<close> has its length in its type; it is a tuple here, so that
  an index out of range cannot be written.
\<close>

type_synonym vector2 = "real \<times> real"
type_synonym vector3 = "real \<times> real \<times> real"
type_synonym vector4 = "real \<times> real \<times> real \<times> real"
type_synonym vector5 = "real \<times> real \<times> real \<times> real \<times> real"
type_synonym vector6 = "real \<times> real \<times> real \<times> real \<times> real \<times> real"
type_synonym vector7 = "real \<times> real \<times> real \<times> real \<times> real \<times> real \<times> real"


section \<open>Rounding to a binary floating-point format\<close>

text \<open>
  \<open>round_half_even x\<close> is the integer nearest to \<open>x\<close>, the even one of the two when \<open>x\<close>
  is halfway. \<open>round_binary p emin x\<close> is the number of the binary format with \<open>p\<close>
  significant bits and least normal exponent \<open>emin\<close> that is nearest to \<open>x\<close>, ties to
  even: with \<open>e\<close> the exponent of \<open>x\<close>, not below \<open>emin\<close> (below it the numbers are
  subnormal and equally spaced), the numbers of the format near \<open>x\<close> are the integer
  multiples of \<open>2 powi (e - (p - 1))\<close>. The exponent has no upper bound here: overflow
  is not modelled. \<open>float\<close> is the binary32 format (24 bits, \<open>emin = -126\<close>), \<open>double\<close> the
  binary64 format (53 bits, \<open>emin = -1022\<close>).
\<close>

definition round_half_even :: "real \<Rightarrow> int" where
  "round_half_even x =
     (let f = \<lfloor>x\<rfloor>; d = x - of_int f
      in if d < 1 / 2 then f else if 1 / 2 < d then f + 1 else if even f then f else f + 1)"

definition round_binary :: "nat \<Rightarrow> int \<Rightarrow> real \<Rightarrow> real" where
  "round_binary p emin x =
     (if x = 0 then 0
      else let e = max \<lfloor>log 2 \<bar>x\<bar>\<rfloor> emin;
               u = 2 powi (e - (int p - 1))
           in u * of_int (round_half_even (x / u)))"

definition round_float :: "real \<Rightarrow> real" where
  "round_float = round_binary 24 (- 126)"

definition round_double :: "real \<Rightarrow> real" where
  "round_double = round_binary 53 (- 1022)"

text \<open>
  The conversion of an \<open>int\<close> to \<open>float\<close> and to \<open>double\<close>: the nearest number of the
  format.
\<close>

definition float_of_int :: "int \<Rightarrow> real" where
  "float_of_int n = round_float (of_int n)"

definition double_of_int :: "int \<Rightarrow> real" where
  "double_of_int n = round_double (of_int n)"


section \<open>sym::Pose2 (gen/cpp/sym/pose2.cc)\<close>

text \<open>A \<open>Pose2\<close> stores four numbers: the rotation \<open>(_self[0], _self[1])\<close> and the
  position \<open>(_self[2], _self[3])\<close>.\<close>

datatype Pose2 = Pose2 (Data_Pose2: vector4)

fun Rotation :: "Pose2 \<Rightarrow> vector2" where
  "Rotation (Pose2 (self0, self1, self2, self3)) = (self0, self1)"

fun Position :: "Pose2 \<Rightarrow> vector2" where
  "Position (Pose2 (self0, self1, self2, self3)) = (self2, self3)"

fun ComposeWithPoint :: "Pose2 \<Rightarrow> vector2 \<Rightarrow> vector2" where
  "ComposeWithPoint (Pose2 (self0, self1, self2, self3)) (right0, right1) =
     (self0 * right0 - self1 * right1 + self2,
      self0 * right1 + self1 * right0 + self3)"

fun InverseCompose :: "Pose2 \<Rightarrow> vector2 \<Rightarrow> vector2" where
  "InverseCompose (Pose2 (self0, self1, self2, self3)) (point0, point1) =
     (- self0 * self2 + self0 * point0 - self1 * self3 + self1 * point1,
      - self0 * self3 + self0 * point1 + self1 * self2 - self1 * point0)"



section \<open>cam::Camera (gen/cpp/cam/camera.h)\<close>

text \<open>
  \<open>Camera<CameraCalType>\<close> is a template over the calibration class. What \<open>Camera\<close> takes
  from the calibration class are the fields of the record \<open>CameraCalType\<close>: the two members
  that \<open>Camera\<close> calls, each returning the numeric result together with the validity it
  stores through \<open>is_valid\<close>, and the type \<open>CameraCalType::Scalar\<close>, of which the
  model needs the conversion \<open>Scalar_of_int\<close> of an \<open>int\<close> to it. \<open>InView\<close> compares a
  \<open>Scalar\<close> with the \<open>int\<close> \<open>image_size[i] - 1\<close>: C++ converts the \<open>int\<close> to
  \<open>Scalar\<close> and compares there. The conversion is \<^const>\<open>double_of_int\<close> for a
  calibration over \<open>double\<close> and \<^const>\<open>float_of_int\<close> for one over \<open>float\<close>.

  The members \<open>calibration_\<close> and \<open>image_size_\<close> are the fields \<open>calibration\<close>
  and \<open>image_size\<close>. The image size is an \<open>Eigen::Vector2i\<close>; its components are
  \<^typ>\<open>int\<close> here. The only arithmetic on them is \<open>image_size[i] - 1\<close>, which
  \<open>MaybeCheckInView\<close> reaches with \<open>image_size[i] > 0\<close> only, so it cannot overflow there.
\<close>

record 'cal CameraCalType =
  cal_PixelFromCameraPoint :: "'cal \<Rightarrow> vector3 \<Rightarrow> real \<Rightarrow> vector2 \<times> real"
  cal_CameraRayFromPixel :: "'cal \<Rightarrow> vector2 \<Rightarrow> real \<Rightarrow> vector3 \<times> real"
  Scalar_of_int :: "int \<Rightarrow> real"

record 'cal Camera =
  calibration :: 'cal
  image_size :: "int \<times> int"

fun InView :: "'cal CameraCalType \<Rightarrow> vector2 \<Rightarrow> int \<times> int \<Rightarrow> real" where
  "InView ops (pixel0, pixel1) (image_size0, image_size1) =
     (let x_in_view = (pixel0 \<ge> 0 \<and> pixel0 \<le> Scalar_of_int ops (image_size0 - 1));
          y_in_view = (pixel1 \<ge> 0 \<and> pixel1 \<le> Scalar_of_int ops (image_size1 - 1))
      in if x_in_view \<and> y_in_view then 1 else 0)"

definition MaybeCheckInView :: "'cal CameraCalType \<Rightarrow> 'cal Camera \<Rightarrow> vector2 \<Rightarrow> real" where
  "MaybeCheckInView ops cam pixel =
     (if fst (image_size cam) \<le> 0 \<or> snd (image_size cam) \<le> 0 then 1
      else InView ops pixel (image_size cam))"

text \<open>
  The out-parameter \<open>Scalar* const is_valid\<close> is the flag \<open>is_valid\<close> (false for
  \<open>nullptr\<close>) on the way in and an optional validity on the way out.
\<close>

definition PixelFromCameraPoint ::
  "'cal CameraCalType \<Rightarrow> 'cal Camera \<Rightarrow> vector3 \<Rightarrow> real \<Rightarrow> bool \<Rightarrow> vector2 \<times> real option" where
  "PixelFromCameraPoint ops cam point epsilon is_valid =
     (let (pixel, valid) = cal_PixelFromCameraPoint ops (calibration cam) point epsilon
      in if is_valid then (pixel, Some (valid * MaybeCheckInView ops cam pixel))
         else (pixel, None))"

definition CameraRayFromPixel ::
  "'cal CameraCalType \<Rightarrow> 'cal Camera \<Rightarrow> vector2 \<Rightarrow> real \<Rightarrow> bool \<Rightarrow> vector3 \<times> real option" where
  "CameraRayFromPixel ops cam pixel epsilon is_valid =
     (let (camera_ray, valid) = cal_CameraRayFromPixel ops (calibration cam) pixel epsilon
      in if is_valid then (camera_ray, Some (valid * MaybeCheckInView ops cam pixel))
         else (camera_ray, None))"



section \<open>Storage operations\<close>

subsection \<open>codegen_multi_function::StorageOps for outputs_2_t (storage_ops/outputs_2_t.h)\<close>

text \<open>
  The declaration of the struct \<open>outputs_2_t\<close> is not among the sources; its
  \<open>StorageDim\<close> is 1 and the only member the storage operations touch is \<open>foo\<close>, so it is
  the record with that one field.

  A \<open>std::vector<double>\<close> is a \<^typ>\<open>real list\<close>. A pointer argument is an
  \<^typ>\<open>'a option\<close>, \<^const>\<open>None\<close> for \<open>nullptr\<close>; a failed \<open>assert\<close> and a read past
  the end of the container give \<^const>\<open>None\<close>.
\<close>

record outputs_2_t =
  foo :: real

definition StorageDim_outputs_2_t :: nat where
  "StorageDim_outputs_2_t = 1"

definition resize :: "nat \<Rightarrow> real list \<Rightarrow> real list" where
  \<comment> \<open>\<open>std::vector::resize\<close>: cut, or fill with value-initialised elements\<close>
  "resize n v = take n v @ replicate (n - length v) 0"

definition ToStorage_outputs_2_t :: "outputs_2_t \<Rightarrow> real list option \<Rightarrow> real list option" where
  "ToStorage_outputs_2_t val vec =
     (case vec of
        None \<Rightarrow> None
      | Some v \<Rightarrow> Some ((resize 1 v)[0 := foo val]))"

definition FromStorage_outputs_2_t :: "real list \<Rightarrow> outputs_2_t option \<Rightarrow> outputs_2_t option" where
  "FromStorage_outputs_2_t elements out =
     (case out of
        None \<Rightarrow> None
      | Some out' \<Rightarrow>
          if length elements < 1 then None
          else Some (out'\<lparr>foo := elements ! 0\<rparr>))"


section \<open>cam::ATANCameraCal (gen/cpp/cam/atan_camera_cal.h)\<close>

datatype ATANCameraCal = ATANCameraCal (Data: vector5)

text \<open>
  Modelled from the spec: \<open>geo::StorageOps<ATANCameraCal>\<close>, to which the members
  \<open>StorageDim\<close>, \<open>ToStorage\<close> and \<open>FromStorage\<close> of the class delegate, lives in
  \<open>ops/atan_camera_cal/storage_ops.h\<close>, which is not among the sources. The specification
  gives the flat layout \<open>[fx, fy, cx, cy, omega]\<close> of length 5, and defines unflattening only
  for a vector of that length.
\<close>

definition StorageOps_StorageDim :: nat where
  \<comment> \<open>Modelled from the spec: the ATAN calibration is 5 numbers.\<close>
  "StorageOps_StorageDim = 5"

text \<open>Modelled from the spec: \<open>geo::StorageOps<ATANCameraCal>::ToStorage\<close> (absent), the
  flat vector \<open>[fx, fy, cx, cy, omega]\<close>.\<close>

fun StorageOps_ToStorage :: "ATANCameraCal \<Rightarrow> real list" where
  "StorageOps_ToStorage (ATANCameraCal (fx, fy, cx, cy, omega)) = [fx, fy, cx, cy, omega]"

text \<open>Modelled from the spec: \<open>geo::StorageOps<ATANCameraCal>::FromStorage\<close> (absent),
  defined only for a vector of length \<open>StorageDim\<close>; any other length is the contract
  violation \<^const>\<open>None\<close>.\<close>

fun StorageOps_FromStorage :: "real list \<Rightarrow> ATANCameraCal option" where
  "StorageOps_FromStorage [fx, fy, cx, cy, omega] = Some (ATANCameraCal (fx, fy, cx, cy, omega))"
| "StorageOps_FromStorage _ = None"

definition StorageDim :: nat where
  "StorageDim = StorageOps_StorageDim"

definition ToStorage :: "ATANCameraCal \<Rightarrow> real list" where
  "ToStorage self = StorageOps_ToStorage self"

definition FromStorage :: "real list \<Rightarrow> ATANCameraCal option" where
  "FromStorage vec = StorageOps_FromStorage vec"

text \<open>
  \<open>IsApprox\<close> calls three members of Eigen on the 5-vector: \<open>operator==\<close> against
  \<open>DataVec::Zero()\<close> (exact, component by component), \<open>norm()\<close> and \<open>isApprox\<close>. Eigen
  computes the last two in \<open>Scalar\<close>, in an order of evaluation of its own choice, and
  is not part of the repository: they are the fields of the record \<open>Eigen_ops\<close>.
  \<open>Eigen_norm\<close> is \<^const>\<open>None\<close> when the norm that Eigen computes is not a finite
  number (the sum of squares overflows); such a norm is below no tolerance.
\<close>

definition Zero5 :: vector5 where
  "Zero5 = (0, 0, 0, 0, 0)"

record Eigen_ops =
  Eigen_norm :: "vector5 \<Rightarrow> real option"
  Eigen_isApprox :: "vector5 \<Rightarrow> vector5 \<Rightarrow> real \<Rightarrow> bool"

definition IsApprox :: "Eigen_ops \<Rightarrow> ATANCameraCal \<Rightarrow> ATANCameraCal \<Rightarrow> real \<Rightarrow> bool" where
  "IsApprox E self b tol =
     (if Data b = Zero5
      then (case Eigen_norm E (Data self) of None \<Rightarrow> False | Some n \<Rightarrow> n < tol)
      else Eigen_isApprox E (Data self) (Data b) tol)"

text \<open>
  The two members over exact arithmetic, where nothing is rounded and the order of
  evaluation does not matter: \<open>norm()\<close> is the Euclidean norm, and \<open>isApprox\<close> is what the
  Eigen documentation cited in the source defines as
  \<open>\<parallel>v - w\<parallel> \<le> p min(\<parallel>v\<parallel>, \<parallel>w\<parallel>)\<close> and Eigen evaluates on the squared norms.
\<close>

fun squaredNorm :: "vector5 \<Rightarrow> real" where
  "squaredNorm (d0, d1, d2, d3, d4) = d0 * d0 + d1 * d1 + d2 * d2 + d3 * d3 + d4 * d4"

definition norm5 :: "vector5 \<Rightarrow> real" where
  "norm5 d = sqrt (squaredNorm d)"

fun minus5 :: "vector5 \<Rightarrow> vector5 \<Rightarrow> vector5" where
  "minus5 (a0, a1, a2, a3, a4) (b0, b1, b2, b3, b4) = (a0 - b0, a1 - b1, a2 - b2, a3 - b3, a4 - b4)"

definition isApprox :: "vector5 \<Rightarrow> vector5 \<Rightarrow> real \<Rightarrow> bool" where
  "isApprox v w prec =
     (squaredNorm (minus5 v w) \<le> prec * prec * min (squaredNorm v) (squaredNorm w))"

definition Eigen_exact :: Eigen_ops where
  "Eigen_exact = \<lparr>Eigen_norm = (\<lambda>d. Some (norm5 d)), Eigen_isApprox = isApprox\<rparr>"



section \<open>geo::pose3::LieGroupOps (gen/cpp/geo/ops/pose3/lie_group_ops.cc)\<close>

text \<open>
  A \<open>Pose3\<close> stores seven numbers \<open>[qx, qy, qz, qw, tx, ty, tz]\<close>: the rotation quaternion
  with its real part last, then the translation. Each local \<open>_tmpN\<close> of the generated code
  is the \<open>tmpN\<close> of the same number here, \<open>vec[i]\<close> is \<open>veci\<close>, \<open>_a[i]\<close> is \<open>ai\<close>.
\<close>

datatype Pose3 = Pose3 (Data_Pose3: vector7)

definition FromTangent :: "vector6 \<Rightarrow> real \<Rightarrow> Pose3" where
  "FromTangent vec epsilon =
     (case vec of (vec0, vec1, vec2, vec3, vec4, vec5) \<Rightarrow>
      let tmp0 = vec2 * vec2;
          tmp1 = vec1 * vec1;
          tmp2 = vec0 * vec0;
          tmp3 = tmp0 + tmp1 + tmp2 + epsilon * epsilon;
          tmp4 = sqrt tmp3;
          tmp5 = (1 / 2) * tmp4;
          tmp6 = sin tmp5 / tmp4;
          tmp7 = (tmp4 - sin tmp4) / (tmp3 * sqrt tmp3);
          tmp8 = tmp7 * vec0;
          tmp9 = tmp8 * vec2;
          tmp10 = (- cos tmp4 + 1) / tmp3;
          tmp11 = tmp10 * vec1;
          tmp12 = tmp8 * vec1;
          tmp13 = tmp10 * vec2;
          tmp14 = - tmp1;
          tmp15 = - tmp0;
          tmp16 = tmp7 * vec1 * vec2;
          tmp17 = tmp10 * vec0;
          tmp18 = - tmp2
      in Pose3
          (tmp6 * vec0,
           tmp6 * vec1,
           tmp6 * vec2,
           cos tmp5,
           vec3 * (tmp7 * (tmp14 + tmp15) + 1) + vec4 * (tmp12 - tmp13) + vec5 * (tmp11 + tmp9),
           vec3 * (tmp12 + tmp13) + vec4 * (tmp7 * (tmp15 + tmp18) + 1) + vec5 * (tmp16 - tmp17),
           vec3 * (- tmp11 + tmp9) + vec4 * (tmp16 + tmp17) + vec5 * (tmp7 * (tmp14 + tmp18) + 1)))"

text \<open>
  The argument that \<open>ToTangent\<close> and \<open>LocalCoordinates\<close> hand to \<open>std::acos\<close>:
  \<open>std::max<Scalar>(epsilon - 1, std::min<Scalar>(x, -epsilon + 1))\<close>, where \<open>x\<close> is the
  real component of the quaternion (\<open>_a[3]\<close> in the first, \<open>_tmp1\<close> in the second).
\<close>

definition acos_arg :: "real \<Rightarrow> real \<Rightarrow> real" where
  "acos_arg x epsilon = max (epsilon - 1) (min x (- epsilon + 1))"

definition ToTangent :: "Pose3 \<Rightarrow> real \<Rightarrow> vector6" where
  "ToTangent a epsilon =
     (case a of Pose3 (a0, a1, a2, a3, a4, a5, a6) \<Rightarrow>
      let tmp0 = max epsilon (- (a3 * a3) + 1);
          tmp1 = arccos (acos_arg a3 epsilon);
          tmp2 = tmp1 / sqrt tmp0;
          tmp3 = 2 * tmp2;
          tmp4 = 4 * (tmp1 * tmp1) / tmp0;
          tmp5 = (a2 * a2) * tmp4;
          tmp6 = (a1 * a1) * tmp4;
          tmp7 = (a0 * a0) * tmp4;
          tmp8 = tmp5 + tmp6 + tmp7 + epsilon;
          tmp9 = sqrt tmp8;
          tmp10 = 0.5 * tmp9;
          tmp11 = (- 1 / 2 * tmp9 * cos tmp10 / sin tmp10 + 1) / tmp8;
          tmp12 = a2 * tmp11 * tmp4;
          tmp13 = a0 * tmp12;
          tmp14 = 1 * tmp2;
          tmp15 = a1 * tmp14;
          tmp16 = a0 * a1 * tmp11 * tmp4;
          tmp17 = a2 * tmp14;
          tmp18 = - tmp6;
          tmp19 = - tmp5;
          tmp20 = a1 * tmp12;
          tmp21 = a0 * tmp14;
          tmp22 = - tmp7
      in (a0 * tmp3,
          a1 * tmp3,
          a2 * tmp3,
          a4 * (tmp11 * (tmp18 + tmp19) + 1) + a5 * (tmp16 + tmp17) + a6 * (tmp13 - tmp15),
          a4 * (tmp16 - tmp17) + a5 * (tmp11 * (tmp19 + tmp22) + 1) + a6 * (tmp20 + tmp21),
          a4 * (tmp13 + tmp15) + a5 * (tmp20 - tmp21) + a6 * (tmp11 * (tmp18 + tmp22) + 1)))"

definition Retract :: "Pose3 \<Rightarrow> vector6 \<Rightarrow> real \<Rightarrow> Pose3" where
  "Retract a vec epsilon =
     (case (a, vec) of
        (Pose3 (a0, a1, a2, a3, a4, a5, a6), (vec0, vec1, vec2, vec3, vec4, vec5)) \<Rightarrow>
      let tmp0 = vec2 * vec2;
          tmp1 = vec1 * vec1;
          tmp2 = vec0 * vec0;
          tmp3 = tmp0 + tmp1 + tmp2 + epsilon * epsilon;
          tmp4 = sqrt tmp3;
          tmp5 = (1 / 2) * tmp4;
          tmp6 = sin tmp5 / tmp4;
          tmp7 = tmp6 * vec2;
          tmp8 = tmp6 * vec1;
          tmp9 = cos tmp5;
          tmp10 = a3 * tmp6;
          tmp11 = tmp6 * vec0;
          tmp12 = 2 * a1;
          tmp13 = a3 * tmp12;
          tmp14 = 2 * a0;
          tmp15 = a2 * tmp14;
          tmp16 = - tmp2;
          tmp17 = - tmp1;
          tmp18 = (tmp4 - sin tmp4) / (tmp3 * sqrt tmp3);
          tmp19 = tmp18 * vec1 * vec2;
          tmp20 = (- cos tmp4 + 1) / tmp3;
          tmp21 = tmp20 * vec0;
          tmp22 = tmp18 * vec0;
          tmp23 = tmp22 * vec2;
          tmp24 = tmp20 * vec1;
          tmp25 = vec3 * (tmp23 - tmp24) + vec4 * (tmp19 + tmp21)
                    + vec5 * (tmp18 * (tmp16 + tmp17) + 1);
          tmp26 = 2 * a2 * a3;
          tmp27 = a0 * tmp12;
          tmp28 = - tmp0;
          tmp29 = tmp22 * vec1;
          tmp30 = tmp20 * vec2;
          tmp31 = vec3 * (tmp29 + tmp30) + vec4 * (tmp18 * (tmp16 + tmp28) + 1)
                    + vec5 * (tmp19 - tmp21);
          tmp32 = - 2 * (a2 * a2);
          tmp33 = - 2 * (a1 * a1) + 1;
          tmp34 = vec3 * (tmp18 * (tmp17 + tmp28) + 1) + vec4 * (tmp29 - tmp30)
                    + vec5 * (tmp23 + tmp24);
          tmp35 = a3 * tmp14;
          tmp36 = a2 * tmp12;
          tmp37 = - 2 * (a0 * a0)
      in Pose3
          (a0 * tmp9 + a1 * tmp7 - a2 * tmp8 + tmp10 * vec0,
           - a0 * tmp7 + a1 * tmp9 + a2 * tmp11 + a3 * tmp8,
           a0 * tmp8 - a1 * tmp11 + a2 * tmp9 + tmp10 * vec2,
           - a0 * tmp11 - a1 * tmp8 - a2 * tmp7 + a3 * tmp9,
           a4 + tmp25 * (tmp13 + tmp15) + tmp31 * (- tmp26 + tmp27) + tmp34 * (tmp32 + tmp33),
           a5 + tmp25 * (- tmp35 + tmp36) + tmp31 * (tmp32 + tmp37 + 1) + tmp34 * (tmp26 + tmp27),
           a6 + tmp25 * (tmp33 + tmp37) + tmp31 * (tmp35 + tmp36) + tmp34 * (- tmp13 + tmp15)))"

definition LocalCoordinates :: "Pose3 \<Rightarrow> Pose3 \<Rightarrow> real \<Rightarrow> vector6" where
  "LocalCoordinates a b epsilon =
     (case (a, b) of
        (Pose3 (a0, a1, a2, a3, a4, a5, a6), Pose3 (b0, b1, b2, b3, b4, b5, b6)) \<Rightarrow>
      let tmp0 = - a0 * b3 - a1 * b2 + a2 * b1 + a3 * b0;
          tmp1 = a0 * b0 + a1 * b1 + a2 * b2 + a3 * b3;
          tmp2 = arccos (acos_arg tmp1 epsilon);
          tmp3 = max epsilon (- (tmp1 * tmp1) + 1);
          tmp4 = tmp2 / sqrt tmp3;
          tmp5 = 2 * tmp4;
          tmp6 = a0 * b2 - a1 * b3 - a2 * b0 + a3 * b1;
          tmp7 = - a0 * b1 + a1 * b0 - a2 * b3 + a3 * b2;
          tmp8 = - 2 * (a0 * a0);
          tmp9 = - 2 * (a1 * a1) + 1;
          tmp10 = tmp8 + tmp9;
          tmp11 = 2 * a0;
          tmp12 = a3 * tmp11;
          tmp13 = 2 * a2;
          tmp14 = a1 * tmp13;
          tmp15 = - tmp12 + tmp14;
          tmp16 = 2 * a1 * a3;
          tmp17 = a2 * tmp11;
          tmp18 = tmp16 + tmp17;
          tmp19 = - a4 * tmp18 - a5 * tmp15 - a6 * tmp10 + b4 * tmp18 + b5 * tmp15 + b6 * tmp10;
          tmp20 = 4 * (tmp2 * tmp2) / tmp3;
          tmp21 = tmp20 * (tmp7 * tmp7);
          tmp22 = tmp20 * (tmp6 * tmp6);
          tmp23 = (tmp0 * tmp0) * tmp20;
          tmp24 = tmp21 + tmp22 + tmp23 + epsilon;
          tmp25 = sqrt tmp24;
          tmp26 = 0.5 * tmp25;
          tmp27 = (- 1 / 2 * tmp25 * cos tmp26 / sin tmp26 + 1) / tmp24;
          tmp28 = tmp0 * tmp20 * tmp27;
          tmp29 = tmp28 * tmp7;
          tmp30 = 1 * tmp4;
          tmp31 = tmp30 * tmp6;
          tmp32 = tmp12 + tmp14;
          tmp33 = - 2 * (a2 * a2);
          tmp34 = tmp33 + tmp8 + 1;
          tmp35 = a3 * tmp13;
          tmp36 = a1 * tmp11;
          tmp37 = - tmp35 + tmp36;
          tmp38 = - a4 * tmp37 - a5 * tmp34 - a6 * tmp32 + b4 * tmp37 + b5 * tmp34 + b6 * tmp32;
          tmp39 = tmp28 * tmp6;
          tmp40 = tmp30 * tmp7;
          tmp41 = - tmp16 + tmp17;
          tmp42 = tmp35 + tmp36;
          tmp43 = tmp33 + tmp9;
          tmp44 = - a4 * tmp43 - a5 * tmp42 - a6 * tmp41 + b4 * tmp43 + b5 * tmp42 + b6 * tmp41;
          tmp45 = - tmp22;
          tmp46 = - tmp21;
          tmp47 = tmp20 * tmp27 * tmp6 * tmp7;
          tmp48 = tmp0 * tmp30;
          tmp49 = - tmp23
      in (tmp0 * tmp5,
          tmp5 * tmp6,
          tmp5 * tmp7,
          tmp19 * (tmp29 - tmp31) + tmp38 * (tmp39 + tmp40) + tmp44 * (tmp27 * (tmp45 + tmp46) + 1),
          tmp19 * (tmp47 + tmp48) + tmp38 * (tmp27 * (tmp46 + tmp49) + 1) + tmp44 * (tmp39 - tmp40),
          tmp19 * (tmp27 * (tmp45 + tmp49) + 1) + tmp38 * (tmp47 - tmp48) + tmp44 * (tmp29 + tmp31)))"



section \<open>geo::pose3::LieGroupOps with the rounding of Scalar written out\<close>

text \<open>
  The second embedding of \<open>FromTangent\<close>, \<open>ToTangent\<close> and \<open>LocalCoordinates\<close>, of the
  same lines of \<open>lie_group_ops.cc\<close>. The arithmetic of \<open>Scalar\<close> is the record
  \<open>Scalar_arith\<close>: \<open>rnd\<close> takes the exact result of an operation to the \<open>Scalar\<close> that
  the operation returns, and \<open>sin_S\<close>, \<open>cos_S\<close>, \<open>acos_S\<close> are \<open>std::sin\<close>,
  \<open>std::cos\<close>, \<open>std::acos\<close> as the C library computes them. Every \<open>+\<close>, \<open>-\<close>, \<open>*\<close>,
  \<open>/\<close> and \<open>std::sqrt\<close> of the source is followed by \<open>rnd\<close>, in the order in which C++
  evaluates the expression (\<open>a + b + c\<close> is \<open>(a + b) + c\<close>, \<open>-a * b\<close> is \<open>(-a) * b\<close>);
  the unary minus, \<open>std::max\<close> and \<open>std::min\<close> are exact. Each operation is rounded on
  its own: the compiler is taken not to fuse a product with a sum and not to keep
  intermediate results in a wider format.

  With \<open>rnd\<close> the rounding to \<open>double\<close> this is the instance of the template at
  \<open>Scalar = double\<close>, up to overflow. At \<open>Scalar = float\<close> the operations on a literal of
  type \<open>double\<close> (\<open>(1.0/2.0)*_tmp4\<close>, \<open>0.5*_tmp9\<close>, \<open>1.0*_tmp2\<close> and the like) are
  computed in \<open>double\<close> before they are rounded to \<open>float\<close>; none of them is on the way
  to a denominator of \<open>FromTangent\<close> or to the argument of \<open>std::acos\<close>.
\<close>

record Scalar_arith =
  rnd :: "real \<Rightarrow> real"
  sin_S :: "real \<Rightarrow> real"
  cos_S :: "real \<Rightarrow> real"
  acos_S :: "real \<Rightarrow> real"

text \<open>
  What the floating-point unit answers with an infinity or a NaN is an error of the
  model: a division by zero, and \<open>std::acos\<close> outside \<open>[-1, 1]\<close>. Overflow is
  outside the model: a result beyond the largest finite \<open>Scalar\<close> is an infinity in the
  program, which is positive and not zero where it is a denominator.
\<close>

datatype error = DivisionByZero | AcosDomain

definition div_S :: "Scalar_arith \<Rightarrow> real \<Rightarrow> real \<Rightarrow> error + real" where
  "div_S S x y = (if y = 0 then Inl DivisionByZero else Inr (rnd S (x / y)))"

definition acos_checked :: "Scalar_arith \<Rightarrow> real \<Rightarrow> error + real" where
  "acos_checked S x = (if - 1 \<le> x \<and> x \<le> 1 then Inr (acos_S S x) else Inl AcosDomain)"

text \<open>
  \<open>FromTangent\<close>, lines 18 to 46. The three divisions are those of \<open>_tmp6\<close>, \<open>_tmp7\<close> and
  \<open>_tmp10\<close>; their denominators are the guarded norm \<open>_tmp4\<close>, its cube
  \<open>_tmp3 * std::sqrt(_tmp3)\<close> and its square \<open>_tmp3\<close>.
\<close>

definition FromTangent_S :: "Scalar_arith \<Rightarrow> vector6 \<Rightarrow> real \<Rightarrow> error + Pose3" where
  "FromTangent_S S vec epsilon =
     (case vec of (vec0, vec1, vec2, vec3, vec4, vec5) \<Rightarrow>
     (let tmp0 = rnd S (vec2 * vec2);
          tmp1 = rnd S (vec1 * vec1);
          tmp2 = rnd S (vec0 * vec0);
          tmp3 = rnd S (rnd S (rnd S (tmp0 + tmp1) + tmp2) + rnd S (epsilon * epsilon));
          tmp4 = rnd S (sqrt tmp3);
          tmp5 = rnd S (rnd S (1 / 2) * tmp4)
      in (case div_S S (sin_S S tmp5) tmp4 of
           Inl e \<Rightarrow> Inl e
         | Inr tmp6 \<Rightarrow>
      (case div_S S (rnd S (tmp4 - sin_S S tmp4)) (rnd S (tmp3 * rnd S (sqrt tmp3))) of
           Inl e \<Rightarrow> Inl e
         | Inr tmp7 \<Rightarrow>
     (let tmp8 = rnd S (tmp7 * vec0);
          tmp9 = rnd S (tmp8 * vec2)
      in (case div_S S (rnd S (- cos_S S tmp4 + 1)) tmp3 of
           Inl e \<Rightarrow> Inl e
         | Inr tmp10 \<Rightarrow>
     (let tmp11 = rnd S (tmp10 * vec1);
          tmp12 = rnd S (tmp8 * vec1);
          tmp13 = rnd S (tmp10 * vec2);
          tmp14 = - tmp1;
          tmp15 = - tmp0;
          tmp16 = rnd S (rnd S (tmp7 * vec1) * vec2);
          tmp17 = rnd S (tmp10 * vec0);
          tmp18 = - tmp2
      in Inr (Pose3
          (rnd S (tmp6 * vec0),
           rnd S (tmp6 * vec1),
           rnd S (tmp6 * vec2),
           cos_S S tmp5,
           rnd S (rnd S (rnd S (vec3 * rnd S (rnd S (tmp7 * rnd S (tmp14 + tmp15)) + 1))
                         + rnd S (vec4 * rnd S (tmp12 - tmp13)))
                  + rnd S (vec5 * rnd S (tmp11 + tmp9))),
           rnd S (rnd S (rnd S (vec3 * rnd S (tmp12 + tmp13))
                         + rnd S (vec4 * rnd S (rnd S (tmp7 * rnd S (tmp15 + tmp18)) + 1)))
                  + rnd S (vec5 * rnd S (tmp16 - tmp17))),
           rnd S (rnd S (rnd S (vec3 * rnd S (- tmp11 + tmp9))
                         + rnd S (vec4 * rnd S (tmp16 + tmp17)))
                  + rnd S (vec5 * rnd S (rnd S (tmp7 * rnd S (tmp14 + tmp18)) + 1))))))))))))"

text \<open>The local \<open>_tmp3\<close> of \<open>FromTangent\<close>, the guarded squared norm.\<close>

definition FromTangent_tmp3_S :: "Scalar_arith \<Rightarrow> vector6 \<Rightarrow> real \<Rightarrow> real" where
  "FromTangent_tmp3_S S vec epsilon =
     (case vec of (vec0, vec1, vec2, vec3, vec4, vec5) \<Rightarrow>
      let tmp0 = rnd S (vec2 * vec2);
          tmp1 = rnd S (vec1 * vec1);
          tmp2 = rnd S (vec0 * vec0)
      in rnd S (rnd S (rnd S (tmp0 + tmp1) + tmp2) + rnd S (epsilon * epsilon)))"

text \<open>
  The argument that \<open>ToTangent\<close> and \<open>LocalCoordinates\<close> hand to \<open>std::acos\<close>,
  \<open>std::max<Scalar>(epsilon - 1, std::min<Scalar>(x, -epsilon + 1))\<close>: the two bounds are
  computed in \<open>Scalar\<close>.
\<close>

definition acos_arg_S :: "Scalar_arith \<Rightarrow> real \<Rightarrow> real \<Rightarrow> real" where
  "acos_arg_S S x epsilon = max (rnd S (epsilon - 1)) (min x (rnd S (- epsilon + 1)))"

text \<open>
  \<open>ToTangent\<close>, lines 57 to 88. Its one call of \<open>std::acos\<close> is that of \<open>_tmp1\<close>, on the
  clamped \<open>_a[3]\<close>. The divisions are not checked here: this copy is for the domain of
  \<open>std::acos\<close>.
\<close>

definition ToTangent_a3 :: "Pose3 \<Rightarrow> real" where
  "ToTangent_a3 a = (case a of Pose3 (a0, a1, a2, a3, a4, a5, a6) \<Rightarrow> a3)"

definition ToTangent_S :: "Scalar_arith \<Rightarrow> Pose3 \<Rightarrow> real \<Rightarrow> error + vector6" where
  "ToTangent_S S a epsilon =
     (case a of Pose3 (a0, a1, a2, a3, a4, a5, a6) \<Rightarrow>
     (let tmp0 = max epsilon (rnd S (- rnd S (a3 * a3) + 1))
      in (case acos_checked S (max (rnd S (epsilon - 1)) (min a3 (rnd S (- epsilon + 1)))) of
           Inl e \<Rightarrow> Inl e
         | Inr tmp1 \<Rightarrow>
     (let tmp2 = rnd S (tmp1 / rnd S (sqrt tmp0));
          tmp3 = rnd S (2 * tmp2);
          tmp4 = rnd S (rnd S (4 * rnd S (tmp1 * tmp1)) / tmp0);
          tmp5 = rnd S (rnd S (a2 * a2) * tmp4);
          tmp6 = rnd S (rnd S (a1 * a1) * tmp4);
          tmp7 = rnd S (rnd S (a0 * a0) * tmp4);
          tmp8 = rnd S (rnd S (rnd S (tmp5 + tmp6) + tmp7) + epsilon);
          tmp9 = rnd S (sqrt tmp8);
          tmp10 = rnd S (0.5 * tmp9);
          tmp11 = rnd S (rnd S (rnd S (rnd S (rnd S (rnd S (- 1 / 2) * tmp9) * cos_S S tmp10)
                                       / sin_S S tmp10)
                                + 1)
                         / tmp8);
          tmp12 = rnd S (rnd S (a2 * tmp11) * tmp4);
          tmp13 = rnd S (a0 * tmp12);
          tmp14 = rnd S (1 * tmp2);
          tmp15 = rnd S (a1 * tmp14);
          tmp16 = rnd S (rnd S (rnd S (a0 * a1) * tmp11) * tmp4);
          tmp17 = rnd S (a2 * tmp14);
          tmp18 = - tmp6;
          tmp19 = - tmp5;
          tmp20 = rnd S (a1 * tmp12);
          tmp21 = rnd S (a0 * tmp14);
          tmp22 = - tmp7
      in Inr
          (rnd S (a0 * tmp3),
           rnd S (a1 * tmp3),
           rnd S (a2 * tmp3),
           rnd S (rnd S (rnd S (a4 * rnd S (rnd S (tmp11 * rnd S (tmp18 + tmp19)) + 1))
                         + rnd S (a5 * rnd S (tmp16 + tmp17)))
                  + rnd S (a6 * rnd S (tmp13 - tmp15))),
           rnd S (rnd S (rnd S (a4 * rnd S (tmp16 - tmp17))
                         + rnd S (a5 * rnd S (rnd S (tmp11 * rnd S (tmp19 + tmp22)) + 1)))
                  + rnd S (a6 * rnd S (tmp20 + tmp21))),
           rnd S (rnd S (rnd S (a4 * rnd S (tmp13 + tmp15))
                         + rnd S (a5 * rnd S (tmp20 - tmp21)))
                  + rnd S (a6 * rnd S (rnd S (tmp11 * rnd S (tmp18 + tmp22)) + 1))))))))"

text \<open>
  \<open>LocalCoordinates\<close>, lines 158 to 216. Its one call of \<open>std::acos\<close> is that of \<open>_tmp2\<close>,
  on the clamped \<open>_tmp1\<close>, the real component of the relative rotation.
\<close>

definition LocalCoordinates_tmp1_S :: "Scalar_arith \<Rightarrow> Pose3 \<Rightarrow> Pose3 \<Rightarrow> real" where
  "LocalCoordinates_tmp1_S S a b =
     (case (a, b) of (Pose3 (a0, a1, a2, a3, a4, a5, a6), Pose3 (b0, b1, b2, b3, b4, b5, b6)) \<Rightarrow>
      rnd S (rnd S (rnd S (rnd S (a0 * b0) + rnd S (a1 * b1)) + rnd S (a2 * b2))
             + rnd S (a3 * b3)))"

definition LocalCoordinates_S :: "Scalar_arith \<Rightarrow> Pose3 \<Rightarrow> Pose3 \<Rightarrow> real \<Rightarrow> error + vector6" where
  "LocalCoordinates_S S a b epsilon =
     (case (a, b) of (Pose3 (a0, a1, a2, a3, a4, a5, a6), Pose3 (b0, b1, b2, b3, b4, b5, b6)) \<Rightarrow>
     (let tmp0 = rnd S (rnd S (rnd S (rnd S (- a0 * b3) - rnd S (a1 * b2)) + rnd S (a2 * b1))
                        + rnd S (a3 * b0));
          tmp1 = rnd S (rnd S (rnd S (rnd S (a0 * b0) + rnd S (a1 * b1)) + rnd S (a2 * b2))
                        + rnd S (a3 * b3))
      in (case acos_checked S (max (rnd S (epsilon - 1)) (min tmp1 (rnd S (- epsilon + 1)))) of
           Inl e \<Rightarrow> Inl e
         | Inr tmp2 \<Rightarrow>
     (let tmp3 = max epsilon (rnd S (- rnd S (tmp1 * tmp1) + 1));
          tmp4 = rnd S (tmp2 / rnd S (sqrt tmp3));
          tmp5 = rnd S (2 * tmp4);
          tmp6 = rnd S (rnd S (rnd S (rnd S (a0 * b2) - rnd S (a1 * b3)) - rnd S (a2 * b0))
                        + rnd S (a3 * b1));
          tmp7 = rnd S (rnd S (rnd S (rnd S (- a0 * b1) + rnd S (a1 * b0)) - rnd S (a2 * b3))
                        + rnd S (a3 * b2));
          tmp8 = rnd S (- 2 * rnd S (a0 * a0));
          tmp9 = rnd S (rnd S (- 2 * rnd S (a1 * a1)) + 1);
          tmp10 = rnd S (tmp8 + tmp9);
          tmp11 = rnd S (2 * a0);
          tmp12 = rnd S (a3 * tmp11);
          tmp13 = rnd S (2 * a2);
          tmp14 = rnd S (a1 * tmp13);
          tmp15 = rnd S (- tmp12 + tmp14);
          tmp16 = rnd S (rnd S (2 * a1) * a3);
          tmp17 = rnd S (a2 * tmp11);
          tmp18 = rnd S (tmp16 + tmp17);
          tmp19 = rnd S (rnd S (rnd S (rnd S (rnd S (rnd S (- a4 * tmp18) - rnd S (a5 * tmp15))
                                              - rnd S (a6 * tmp10))
                                       + rnd S (b4 * tmp18))
                                + rnd S (b5 * tmp15))
                         + rnd S (b6 * tmp10));
          tmp20 = rnd S (rnd S (4 * rnd S (tmp2 * tmp2)) / tmp3);
          tmp21 = rnd S (tmp20 * rnd S (tmp7 * tmp7));
          tmp22 = rnd S (tmp20 * rnd S (tmp6 * tmp6));
          tmp23 = rnd S (rnd S (tmp0 * tmp0) * tmp20);
          tmp24 = rnd S (rnd S (rnd S (tmp21 + tmp22) + tmp23) + epsilon);
          tmp25 = rnd S (sqrt tmp24);
          tmp26 = rnd S (0.5 * tmp25);
          tmp27 = rnd S (rnd S (rnd S (rnd S (rnd S (rnd S (- 1 / 2) * tmp25) * cos_S S tmp26)
                                       / sin_S S tmp26)
                                + 1)
                         / tmp24);
          tmp28 = rnd S (rnd S (tmp0 * tmp20) * tmp27);
          tmp29 = rnd S (tmp28 * tmp7);
          tmp30 = rnd S (1 * tmp4);
          tmp31 = rnd S (tmp30 * tmp6);
          tmp32 = rnd S (tmp12 + tmp14);
          tmp33 = rnd S (- 2 * rnd S (a2 * a2));
          tmp34 = rnd S (rnd S (tmp33 + tmp8) + 1);
          tmp35 = rnd S (a3 * tmp13);
          tmp36 = rnd S (a1 * tmp11);
          tmp37 = rnd S (- tmp35 + tmp36);
          tmp38 = rnd S (rnd S (rnd S (rnd S (rnd S (rnd S (- a4 * tmp37) - rnd S (a5 * tmp34))
                                              - rnd S (a6 * tmp32))
                                       + rnd S (b4 * tmp37))
                                + rnd S (b5 * tmp34))
                         + rnd S (b6 * tmp32));
          tmp39 = rnd S (tmp28 * tmp6);
          tmp40 = rnd S (tmp30 * tmp7);
          tmp41 = rnd S (- tmp16 + tmp17);
          tmp42 = rnd S (tmp35 + tmp36);
          tmp43 = rnd S (tmp33 + tmp9);
          tmp44 = rnd S (rnd S (rnd S (rnd S (rnd S (rnd S (- a4 * tmp43) - rnd S (a5 * tmp42))
                                              - rnd S (a6 * tmp41))
                                       + rnd S (b4 * tmp43))
                                + rnd S (b5 * tmp42))
                         + rnd S (b6 * tmp41));
          tmp45 = - tmp22;
          tmp46 = - tmp21;
          tmp47 = rnd S (rnd S (rnd S (tmp20 * tmp27) * tmp6) * tmp7);
          tmp48 = rnd S (tmp0 * tmp30);
          tmp49 = - tmp23
      in Inr
          (rnd S (tmp0 * tmp5),
           rnd S (tmp5 * tmp6),
           rnd S (tmp5 * tmp7),
           rnd S (rnd S (rnd S (tmp19 * rnd S (tmp29 - tmp31))
                         + rnd S (tmp38 * rnd S (tmp39 + tmp40)))
                  + rnd S (tmp44 * rnd S (rnd S (tmp27 * rnd S (tmp45 + tmp46)) + 1))),
           rnd S (rnd S (rnd S (tmp19 * rnd S (tmp47 + tmp48))
                         + rnd S (tmp38 * rnd S (rnd S (tmp27 * rnd S (tmp46 + tmp49)) + 1)))
                  + rnd S (tmp44 * rnd S (tmp39 - tmp40))),
           rnd S (rnd S (rnd S (tmp19 * rnd S (rnd S (tmp27 * rnd S (tmp45 + tmp49)) + 1))
                         + rnd S (tmp38 * rnd S (tmp47 - tmp48)))
                  + rnd S (tmp44 * rnd S (tmp29 + tmp31))))))))"

text \<open>
  The arithmetic of \<open>double\<close>: every result rounded to nearest, and a C library whose
  \<open>sin\<close>, \<open>cos\<close> and \<open>acos\<close> are correctly rounded; nothing that is proved of this
  instance below depends on what the three return. And exact arithmetic, where nothing
  is rounded: there the copies above are the functions of the previous section.
\<close>

definition double_arith :: Scalar_arith where
  "double_arith =
     \<lparr>rnd = round_double,
      sin_S = (\<lambda>x. round_double (sin x)),
      cos_S = (\<lambda>x. round_double (cos x)),
      acos_S = (\<lambda>x. round_double (arccos x))\<rparr>"

definition exact_arith :: Scalar_arith where
  "exact_arith = \<lparr>rnd = (\<lambda>x. x), sin_S = sin, cos_S = cos, acos_S = arccos\<rparr>"



section \<open>Group operations of Pose3\<close>

text \<open>
  Modelled from the spec: \<open>Compose\<close>, \<open>Inverse\<close> and \<open>Between\<close> of \<open>Pose3\<close> are generated
  into \<open>geo/ops/pose3/group_ops.cc\<close>, which is not among the sources. The specification
  says: rotation composition is the standard quaternion product; pose composition rotates
  the right-hand translation by the left rotation and adds the translations;
  \<open>Between(a, b) = Compose(Inverse(a), b)\<close>. A rotation is stored as a unit quaternion and
  is trusted to be one, so "rotates by" is the rotation matrix of a unit quaternion, with
  diagonal \<open>1 - 2 (y\<^sup>2 + z\<^sup>2)\<close>, \<open>1 - 2 (x\<^sup>2 + z\<^sup>2)\<close>, \<open>1 - 2 (x\<^sup>2 + y\<^sup>2)\<close>; the inverse of
  a rotation is the conjugate quaternion, and the inverse of a pose is the inverse rotation
  with the translation rotated by it and negated.
\<close>

text \<open>Modelled from the spec: the standard quaternion product, on quaternions stored as
  \<open>[x, y, z, w]\<close> (the composition of rotations in the absent \<open>group_ops.cc\<close>).\<close>

fun quaternion_product :: "vector4 \<Rightarrow> vector4 \<Rightarrow> vector4" where
  "quaternion_product (ax, ay, az, aw) (bx, by, bz, bw) =
     (aw * bx + ax * bw + ay * bz - az * by,
      aw * by - ax * bz + ay * bw + az * bx,
      aw * bz + ax * by - ay * bx + az * bw,
      aw * bw - ax * bx - ay * by - az * bz)"

text \<open>Modelled from the spec: the inverse of a rotation, the conjugate of its unit
  quaternion.\<close>

fun quaternion_conjugate :: "vector4 \<Rightarrow> vector4" where
  "quaternion_conjugate (x, y, z, w) = (- x, - y, - z, w)"

text \<open>Modelled from the spec: a rotation applied to a vector, by the rotation matrix of
  the unit quaternion.\<close>

fun rotate :: "vector4 \<Rightarrow> vector3 \<Rightarrow> vector3" where
  "rotate (x, y, z, w) (p0, p1, p2) =
     ((1 - 2 * (y * y + z * z)) * p0 + (2 * (x * y - z * w)) * p1 + (2 * (x * z + y * w)) * p2,
      (2 * (x * y + z * w)) * p0 + (1 - 2 * (x * x + z * z)) * p1 + (2 * (y * z - x * w)) * p2,
      (2 * (x * z - y * w)) * p0 + (2 * (y * z + x * w)) * p1 + (1 - 2 * (x * x + y * y)) * p2)"

fun Pose3_rotation :: "Pose3 \<Rightarrow> vector4" where
  "Pose3_rotation (Pose3 (a0, a1, a2, a3, a4, a5, a6)) = (a0, a1, a2, a3)"

fun Pose3_position :: "Pose3 \<Rightarrow> vector3" where
  "Pose3_position (Pose3 (a0, a1, a2, a3, a4, a5, a6)) = (a4, a5, a6)"

fun Pose3_of :: "vector4 \<Rightarrow> vector3 \<Rightarrow> Pose3" where
  "Pose3_of (x, y, z, w) (t0, t1, t2) = Pose3 (x, y, z, w, t0, t1, t2)"

fun plus3 :: "vector3 \<Rightarrow> vector3 \<Rightarrow> vector3" where
  "plus3 (p0, p1, p2) (q0, q1, q2) = (p0 + q0, p1 + q1, p2 + q2)"

fun uminus3 :: "vector3 \<Rightarrow> vector3" where
  "uminus3 (p0, p1, p2) = (- p0, - p1, - p2)"

text \<open>Modelled from the spec: \<open>Compose\<close> of \<open>Pose3\<close> (absent \<open>group_ops.cc\<close>): the product
  of the rotations, and the left translation plus the right translation rotated by the left
  rotation.\<close>

definition Compose :: "Pose3 \<Rightarrow> Pose3 \<Rightarrow> Pose3" where
  "Compose a b =
     Pose3_of (quaternion_product (Pose3_rotation a) (Pose3_rotation b))
       (plus3 (Pose3_position a) (rotate (Pose3_rotation a) (Pose3_position b)))"

text \<open>Modelled from the spec: \<open>Inverse\<close> of \<open>Pose3\<close> (absent \<open>group_ops.cc\<close>): the inverse
  rotation, and the translation rotated by it and negated.\<close>

definition Inverse :: "Pose3 \<Rightarrow> Pose3" where
  "Inverse a =
     Pose3_of (quaternion_conjugate (Pose3_rotation a))
       (uminus3 (rotate (quaternion_conjugate (Pose3_rotation a)) (Pose3_position a)))"

text \<open>Modelled from the spec: \<open>Between(a, b) = Compose(Inverse(a), b)\<close>.\<close>

definition Between :: "Pose3 \<Rightarrow> Pose3 \<Rightarrow> Pose3" where
  "Between a b = Compose (Inverse a) b"



section \<open>Theorems\<close>

subsection \<open>Pose2\<close>

text \<open>
  C10. For a pose whose rotation parameters have unit norm
  (\<open>self0\<^sup>2 + self1\<^sup>2 = 1\<close>), applying the pose to a 2D point and then applying
  the inverse pose gives the point back, exactly, over the reals.
\<close>

theorem InverseCompose_ComposeWithPoint:
  assumes "fst (Rotation p) * fst (Rotation p) + snd (Rotation p) * snd (Rotation p) = 1"
  shows "InverseCompose p (ComposeWithPoint p x) = x"
proof -
  obtain self0 self1 self2 self3 where p: "p = Pose2 (self0, self1, self2, self3)"
    by (cases p) auto
  obtain x0 x1 where x: "x = (x0, x1)"
    by (cases x)
  from assms have unit: "self0 * self0 + self1 * self1 = 1"
    by (simp add: p)
  have "(self0 * self0 + self1 * self1) * x0 = x0"
    and "(self0 * self0 + self1 * self1) * x1 = x1"
    by (simp_all add: unit)
  then show ?thesis
    by (simp add: p x algebra_simps)
qed

theorem InverseCompose_ComposeWithPoint_witness:
  "fst (Rotation (Pose2 (3/5, 4/5, 2, -7))) * fst (Rotation (Pose2 (3/5, 4/5, 2, -7)))
     + snd (Rotation (Pose2 (3/5, 4/5, 2, -7))) * snd (Rotation (Pose2 (3/5, 4/5, 2, -7))) = 1
   \<and> InverseCompose (Pose2 (3/5, 4/5, 2, -7))
         (ComposeWithPoint (Pose2 (3/5, 4/5, 2, -7)) (10, 20)) = (10, 20)"
proof -
  have h: "fst (Rotation (Pose2 (3/5, 4/5, 2, -7))) * fst (Rotation (Pose2 (3/5, 4/5, 2, -7)))
     + snd (Rotation (Pose2 (3/5, 4/5, 2, -7))) * snd (Rotation (Pose2 (3/5, 4/5, 2, -7))) = 1"
    by simp
  show ?thesis
    using h InverseCompose_ComposeWithPoint [OF h, of "(10, 20)"] by simp
qed

subsection \<open>Rounding\<close>

text \<open>
  Facts about \<^const>\<open>round_binary\<close>: it is monotone and odd, it leaves the powers of two
  of the format and the integers of at most \<open>p\<close> bits as they are, and it takes what is
  below half of the least subnormal number to zero.
\<close>

lemma round_half_even_of_int [simp]: "round_half_even (of_int n) = n"
  by (simp add: round_half_even_def)

lemma floor_log2_eq:
  assumes "2 powi e \<le> \<bar>x\<bar>" and "\<bar>x\<bar> < 2 powi (e + 1)"
  shows "\<lfloor>log 2 \<bar>x\<bar>\<rfloor> = e"
proof -
  have "0 < (2::real) powi e"
    by simp
  with assms(1) have pos: "0 < \<bar>x\<bar>"
    by linarith
  have a: "(2::real) powr (of_int e) = 2 powi e"
    by (simp add: powr_real_of_int')
  have b: "(2::real) powr (of_int e + 1) = 2 powi (e + 1)"
    using powr_real_of_int' [of "2::real" "e + 1"] by simp
  show ?thesis
    using assms pos by (simp add: floor_log_eq_powr_iff a b)
qed

lemma round_binary_binade:
  assumes "2 powi e \<le> \<bar>x\<bar>" and "\<bar>x\<bar> < 2 powi (e + 1)"
  shows "round_binary p emin x =
           2 powi (max e emin - (int p - 1))
           * of_int (round_half_even (x / 2 powi (max e emin - (int p - 1))))"
proof -
  have "0 < (2::real) powi e"
    by simp
  with assms(1) have "0 < \<bar>x\<bar>"
    by linarith
  then have "x \<noteq> 0"
    by auto
  then show ?thesis
    by (simp add: round_binary_def Let_def floor_log2_eq [OF assms])
qed

lemma round_binary_0 [simp]: "round_binary p emin 0 = 0"
  by (simp add: round_binary_def)


lemma round_half_even_cases:
  "round_half_even x = \<lfloor>x\<rfloor> \<or> round_half_even x = \<lfloor>x\<rfloor> + 1"
  unfolding round_half_even_def Let_def by simp

lemma round_half_even_lower: "\<lfloor>x\<rfloor> \<le> round_half_even x"
  using round_half_even_cases [of x] by linarith

lemma round_half_even_upper: "round_half_even x \<le> \<lfloor>x\<rfloor> + 1"
  using round_half_even_cases [of x] by linarith

lemma round_half_even_mono:
  assumes "x \<le> y"
  shows "round_half_even x \<le> round_half_even y"
proof (cases "\<lfloor>x\<rfloor> = \<lfloor>y\<rfloor>")
  case True
  define f where "f = \<lfloor>y\<rfloor>"
  have d: "x - of_int f \<le> y - of_int f"
    using assms by simp
  show ?thesis
    unfolding round_half_even_def Let_def True f_def [symmetric]
    using d by (simp split: if_splits)
next
  case False
  have "\<lfloor>x\<rfloor> \<le> \<lfloor>y\<rfloor>"
    using assms by (rule floor_mono)
  with False have "\<lfloor>x\<rfloor> + 1 \<le> \<lfloor>y\<rfloor>"
    by linarith
  with round_half_even_upper [of x] round_half_even_lower [of y] show ?thesis
    by linarith
qed


lemma round_half_even_minus: "round_half_even (- x) = - round_half_even x"
proof (cases "x = of_int \<lfloor>x\<rfloor>")
  case True
  define n where "n = \<lfloor>x\<rfloor>"
  have x: "x = of_int n"
    using True by (simp add: n_def)
  have "round_half_even (of_int (- n)) = - n"
    by (rule round_half_even_of_int)
  then show ?thesis
    unfolding x by simp
next
  case False
  define f where "f = \<lfloor>x\<rfloor>"
  define d where "d = x - of_int f"
  have "\<lceil>x\<rceil> = f + 1"
    using False by (simp add: ceiling_altdef f_def)
  then have fm: "\<lfloor>- x\<rfloor> = - f - 1"
    by (simp add: ceiling_def)
  have dm: "- x - of_int (- f - 1) = 1 - d"
    by (simp add: d_def)
  have ev: "even (- f - 1) \<longleftrightarrow> odd f"
    by simp
  have p: "round_half_even x = (if d < 1 / 2 then f else if 1 / 2 < d then f + 1
      else if even f then f else f + 1)"
    by (simp add: round_half_even_def Let_def f_def d_def)
  have m: "round_half_even (- x) = (if 1 - d < 1 / 2 then - f - 1 else if 1 / 2 < 1 - d then - f
      else if odd f then - f - 1 else - f)"
    unfolding round_half_even_def Let_def fm dm ev by simp
  consider "d < 1 / 2" | "1 / 2 < d" | "d = 1 / 2"
    by linarith
  then show ?thesis
  proof cases
    case 1
    then show ?thesis unfolding p m by simp
  next
    case 2
    then show ?thesis unfolding p m by simp
  next
    case 3
    then show ?thesis unfolding p m by simp
  qed
qed

lemma round_binary_minus: "round_binary p emin (- x) = - round_binary p emin x"
  by (simp add: round_binary_def Let_def round_half_even_minus)

lemma binade_exists:
  fixes x :: real
  assumes "0 < x"
  obtains e :: int where "2 powi e \<le> x" and "x < 2 powi (e + 1)"
proof -
  define e where "e = \<lfloor>log 2 x\<rfloor>"
  have a: "(2::real) powr (of_int e) = 2 powi e"
    by (simp add: powr_real_of_int')
  have b: "(2::real) powr (of_int e + 1) = 2 powi (e + 1)"
    using powr_real_of_int' [of "2::real" "e + 1"] by simp
  have "2 powr (of_int e) \<le> x \<and> x < 2 powr (of_int e + 1)"
    using floor_log_eq_powr_iff [of x 2 e] assms by (simp add: e_def)
  then show ?thesis
    using that [of e] by (simp add: a b)
qed

lemma powi_split: "(2::real) powi (a + b) = 2 powi a * 2 powi b"
  by (simp add: power_int_add)

lemma powi_nat: "(2::real) powi (int n) = 2 ^ n"
  by (simp add: power_int_def)

lemma round_half_even_pow2 [simp]: "round_half_even (2 ^ n) = 2 ^ n"
  using round_half_even_of_int [of "2 ^ n"] by simp

lemma round_half_even_le_pow2:
  assumes "x \<le> 2 ^ n"
  shows "real_of_int (round_half_even x) \<le> 2 ^ n"
proof -
  have "round_half_even x \<le> round_half_even (2 ^ n)"
    using assms by (rule round_half_even_mono)
  then have "round_half_even x \<le> 2 ^ n"
    by simp
  then have "real_of_int (round_half_even x) \<le> real_of_int (2 ^ n)"
    by (simp only: of_int_le_iff)
  then show ?thesis
    by simp
qed

lemma round_half_even_ge_pow2:
  assumes "2 ^ n \<le> x"
  shows "2 ^ n \<le> real_of_int (round_half_even x)"
proof -
  have "round_half_even (2 ^ n) \<le> round_half_even x"
    using assms by (rule round_half_even_mono)
  then have "2 ^ n \<le> round_half_even x"
    by simp
  then have "real_of_int (2 ^ n) \<le> real_of_int (round_half_even x)"
    by (simp only: of_int_le_iff)
  then show ?thesis
    by simp
qed

text \<open>Positive numbers: the rounded value stays in the closed binade.\<close>

lemma round_binary_upper:
  fixes x :: real
  assumes p: "0 < p" and e: "2 powi e \<le> x" "x < 2 powi (e + 1)"
  shows "round_binary p emin x \<le> 2 powi (max e emin + 1)"
proof -
  define E where "E = max e emin"
  define u where "u = (2::real) powi (E - (int p - 1))"
  have u: "0 < u"
    by (simp add: u_def)
  have x: "0 < x"
    using e(1) zero_less_power_int [of "2::real" e] by linarith
  have rb: "round_binary p emin x = u * of_int (round_half_even (x / u))"
    unfolding u_def E_def using e x by (intro round_binary_binade) simp_all
  have split: "(2::real) powi (E + 1) = u * 2 ^ p"
  proof -
    have "(2::real) powi (E + 1) = 2 powi ((E - (int p - 1)) + int p)"
      by (rule arg_cong [where f = "\<lambda>n. 2 powi n"]) simp
    also have "\<dots> = 2 powi (E - (int p - 1)) * 2 powi (int p)"
      by (rule powi_split)
    finally show ?thesis
      by (simp only: u_def powi_nat)
  qed
  have "(2::real) powi (e + 1) \<le> 2 powi (E + 1)"
    by (intro power_int_increasing) (simp_all add: E_def)
  with e(2) have "x < u * 2 ^ p"
    unfolding split by linarith
  then have "x / u \<le> 2 ^ p"
    using u by (simp add: field_simps)
  then have "real_of_int (round_half_even (x / u)) \<le> 2 ^ p"
    by (rule round_half_even_le_pow2)
  then have "u * real_of_int (round_half_even (x / u)) \<le> u * 2 ^ p"
    using u by simp
  then show ?thesis
    unfolding rb split [symmetric] E_def .
qed

lemma round_binary_lower:
  fixes x :: real
  assumes p: "0 < p" and e: "2 powi e \<le> x" "x < 2 powi (e + 1)" and n: "emin \<le> e"
  shows "2 powi e \<le> round_binary p emin x"
proof -
  define u where "u = (2::real) powi (e - (int p - 1))"
  have u: "0 < u"
    by (simp add: u_def)
  have x: "0 < x"
    using e(1) zero_less_power_int [of "2::real" e] by linarith
  have "max e emin = e"
    using n by simp
  then have rb: "round_binary p emin x = u * of_int (round_half_even (x / u))"
    unfolding u_def using round_binary_binade [of e x p emin] e x by simp
  have split: "(2::real) powi e = u * 2 ^ (p - 1)"
  proof -
    have "(2::real) powi e = 2 powi ((e - (int p - 1)) + int (p - 1))"
      using p by (intro arg_cong [where f = "\<lambda>n. 2 powi n"]) simp
    also have "\<dots> = 2 powi (e - (int p - 1)) * 2 powi (int (p - 1))"
      by (rule powi_split)
    finally show ?thesis
      by (simp only: u_def powi_nat)
  qed
  have "2 ^ (p - 1) \<le> x / u"
    using e(1) u unfolding split by (simp add: field_simps)
  then have "2 ^ (p - 1) \<le> real_of_int (round_half_even (x / u))"
    by (rule round_half_even_ge_pow2)
  then have "u * 2 ^ (p - 1) \<le> u * real_of_int (round_half_even (x / u))"
    using u by simp
  then show ?thesis
    unfolding rb split .
qed

lemma round_binary_nonneg:
  assumes "0 \<le> x"
  shows "0 \<le> round_binary p emin x"
proof (cases "x = 0")
  case True
  then show ?thesis by simp
next
  case False
  define u where "u = (2::real) powi (max \<lfloor>log 2 \<bar>x\<bar>\<rfloor> emin - (int p - 1))"
  have u: "0 < u"
    by (simp add: u_def)
  have "0 \<le> x / u"
    using assms u by simp
  then have "0 \<le> \<lfloor>x / u\<rfloor>"
    by simp
  with round_half_even_lower [of "x / u"] have "0 \<le> round_half_even (x / u)"
    by linarith
  then have "0 \<le> u * real_of_int (round_half_even (x / u))"
    using u by simp
  then show ?thesis
    using False by (simp add: round_binary_def Let_def u_def)
qed

lemma round_binary_mono_pos:
  fixes x y :: real
  assumes p: "0 < p" and x: "0 < x" and xy: "x \<le> y"
  shows "round_binary p emin x \<le> round_binary p emin y"
proof -
  from x obtain e where e: "2 powi e \<le> x" "x < 2 powi (e + 1)"
    by (rule binade_exists)
  from x xy have "0 < y"
    by linarith
  then obtain f where f: "2 powi f \<le> y" "y < 2 powi (f + 1)"
    by (rule binade_exists)
  have "(2::real) powi e < 2 powi (f + 1)"
    using e(1) xy f(2) by linarith
  then have "\<not> f + 1 \<le> e"
    using power_int_increasing [of "f + 1" e "2::real"] by auto
  then have ef: "e \<le> f"
    by linarith
  show ?thesis
  proof (cases "max e emin = max f emin")
    case True
    define u where "u = (2::real) powi (max f emin - (int p - 1))"
    have u: "0 < u"
      by (simp add: u_def)
    have rx: "round_binary p emin x = u * of_int (round_half_even (x / u))"
      unfolding u_def True [symmetric] using e x by (intro round_binary_binade) simp_all
    have ry: "round_binary p emin y = u * of_int (round_half_even (y / u))"
      unfolding u_def using f \<open>0 < y\<close> by (intro round_binary_binade) simp_all
    have "x / u \<le> y / u"
      using xy u by (simp add: divide_right_mono)
    then have "round_half_even (x / u) \<le> round_half_even (y / u)"
      by (rule round_half_even_mono)
    then have "real_of_int (round_half_even (x / u)) \<le> real_of_int (round_half_even (y / u))"
      by (simp only: of_int_le_iff)
    then show ?thesis
      unfolding rx ry using u by simp
  next
    case False
    with ef have less: "max e emin + 1 \<le> f" and n: "emin \<le> f"
      by (auto simp: max_def split: if_splits)
    have "round_binary p emin x \<le> 2 powi (max e emin + 1)"
      using p e by (rule round_binary_upper)
    also have "(2::real) powi (max e emin + 1) \<le> 2 powi f"
      using less by (intro power_int_increasing) simp_all
    also have "2 powi f \<le> round_binary p emin y"
      using p f n by (rule round_binary_lower)
    finally show ?thesis .
  qed
qed

lemma round_binary_mono:
  fixes x y :: real
  assumes p: "0 < p" and xy: "x \<le> y"
  shows "round_binary p emin x \<le> round_binary p emin y"
proof -
  consider "0 < x" | "y < 0" | "x \<le> 0" "0 \<le> y"
    by linarith
  then show ?thesis
  proof cases
    case 1
    with p xy show ?thesis
      by (intro round_binary_mono_pos)
  next
    case 2
    then have "round_binary p emin (- y) \<le> round_binary p emin (- x)"
      using p xy by (intro round_binary_mono_pos) simp_all
    then show ?thesis
      by (simp add: round_binary_minus)
  next
    case 3
    have "0 \<le> round_binary p emin (- x)"
      using 3(1) by (intro round_binary_nonneg) simp
    then have "round_binary p emin x \<le> 0"
      by (simp add: round_binary_minus)
    also have "0 \<le> round_binary p emin y"
      using 3(2) by (rule round_binary_nonneg)
    finally show ?thesis .
  qed
qed

lemma round_binary_powi:
  assumes p: "0 < p" and k: "emin - (int p - 1) \<le> k"
  shows "round_binary p emin (2 powi k) = 2 powi k"
proof -
  define m where "m = nat (k - (max k emin - (int p - 1)))"
  have m: "int m = k - (max k emin - (int p - 1))"
    using p k by (simp add: m_def max_def)
  define u where "u = (2::real) powi (max k emin - (int p - 1))"
  have u: "0 < u"
    by (simp add: u_def)
  have "(2::real) powi k = 2 powi ((max k emin - (int p - 1)) + int m)"
    by (rule arg_cong [where f = "\<lambda>n. 2 powi n"]) (simp add: m)
  also have "\<dots> = u * 2 ^ m"
    unfolding u_def by (simp only: powi_split powi_nat)
  finally have split: "(2::real) powi k = u * 2 ^ m" .
  have "round_binary p emin (2 powi k) = u * of_int (round_half_even (2 powi k / u))"
    unfolding u_def
    by (rule round_binary_binade) (simp_all add: power_int_strict_increasing)
  also have "2 powi k / u = 2 ^ m"
    unfolding split using u by simp
  finally show ?thesis
    unfolding split by simp
qed

lemma round_binary_underflow:
  assumes "\<bar>x\<bar> < 2 powi (emin - int p)"
  shows "round_binary p emin x = 0"
proof (cases "x = 0")
  case True
  then show ?thesis by simp
next
  case False
  have pos: "round_binary p emin y = 0" if y: "0 < y" "y < 2 powi (emin - int p)" for y :: real
  proof -
    from y(1) obtain e where e: "2 powi e \<le> y" "y < 2 powi (e + 1)"
      by (rule binade_exists)
    have "(2::real) powi e < 2 powi (emin - int p)"
      using e(1) y(2) by linarith
    then have "\<not> emin - int p \<le> e"
      using power_int_increasing [of "emin - int p" e "2::real"] by auto
    then have E: "max e emin = emin"
      by simp
    define u where "u = (2::real) powi (emin - (int p - 1))"
    have u: "0 < u"
      by (simp add: u_def)
    have rb: "round_binary p emin y = u * of_int (round_half_even (y / u))"
      using round_binary_binade [of e y p emin] e y by (simp add: E u_def)
    have "u = 2 powi ((emin - int p) + 1)"
      unfolding u_def by (rule arg_cong [where f = "\<lambda>n. 2 powi n"]) simp
    also have "\<dots> = 2 powi (emin - int p) * 2"
      by (simp only: powi_split) simp
    finally have u2: "u = 2 powi (emin - int p) * 2" .
    define z where "z = y / u"
    have "y < u * (1 / 2)"
      using y(2) unfolding u2 by simp
    then have "z < 1 / 2"
      unfolding z_def using u by (simp add: field_simps)
    moreover have "0 < z"
      unfolding z_def using y(1) u by simp
    ultimately have z: "0 < z" "z < 1 / 2"
      by simp_all
    then have "of_int 0 \<le> z \<and> z < of_int 0 + 1"
      by simp
    then have "\<lfloor>z\<rfloor> = 0"
      by (simp only: floor_eq_iff)
    with z have "round_half_even z = 0"
      by (simp add: round_half_even_def Let_def)
    then have "round_half_even (y / u) = 0"
      by (simp add: z_def)
    then show ?thesis
      unfolding rb by simp
  qed
  show ?thesis
  proof (cases "0 < x")
    case True
    with assms show ?thesis
      by (intro pos) simp_all
  next
    case neg: False
    with False assms have "round_binary p emin (- x) = 0"
      by (intro pos) simp_all
    then show ?thesis
      by (simp add: round_binary_minus)
  qed
qed

lemma round_binary_of_int:
  assumes p: "0 < p" and emin: "emin \<le> 0" and n: "\<bar>n\<bar> \<le> 2 ^ p"
  shows "round_binary p emin (of_int n) = of_int n"
proof -
  have pos: "round_binary p emin (of_int m) = of_int m" if m: "0 < m" "m \<le> 2 ^ p" for m :: int
  proof (cases "m = 2 ^ p")
    case True
    have "round_binary p emin (2 powi (int p)) = 2 powi (int p)"
      using p emin by (intro round_binary_powi) simp_all
    then show ?thesis
      by (simp add: True powi_nat)
  next
    case False
    with m have lt: "m < 2 ^ p"
      by simp
    define x where "x = real_of_int m"
    have x: "0 < x" "1 \<le> x" "x < 2 ^ p"
      using m lt by (simp_all add: x_def)
    obtain e where e: "2 powi e \<le> x" "x < 2 powi (e + 1)"
      using binade_exists [OF x(1)] by blast
    have e0: "0 \<le> e"
    proof (rule ccontr)
      assume "\<not> 0 \<le> e"
      then have "e + 1 \<le> 0"
        by simp
      then have "(2::real) powi (e + 1) \<le> 2 powi 0"
        by (intro power_int_increasing) simp_all
      with x(2) e(2) show False
        by simp
    qed
    have ep: "e \<le> int p - 1"
    proof (rule ccontr)
      assume "\<not> e \<le> int p - 1"
      then have "int p \<le> e"
        by simp
      then have "(2::real) powi (int p) \<le> 2 powi e"
        by (intro power_int_increasing) simp_all
      with x(3) e(1) show False
        by (simp add: powi_nat)
    qed
    define j where "j = nat (int p - 1 - e)"
    have j: "int j = int p - 1 - e"
      using ep by (simp add: j_def)
    have E: "max e emin = e"
      using e0 emin by simp
    have u: "(2::real) powi (e - (int p - 1)) = 1 / 2 ^ j"
    proof -
      have "e - (int p - 1) = - int j"
        using j by simp
      then have "(2::real) powi (e - (int p - 1)) = 2 powi (- int j)"
        by (rule arg_cong)
      also have "\<dots> = 1 / 2 ^ j"
        by (simp only: power_int_minus powi_nat inverse_eq_divide)
      finally show ?thesis .
    qed
    have "x / (1 / 2 ^ j) = of_int (m * 2 ^ j)"
      by (simp add: x_def)
    then have r: "round_half_even (x / (1 / 2 ^ j)) = m * 2 ^ j"
      by (simp only: round_half_even_of_int)
    have "round_binary p emin x =
            2 powi (max e emin - (int p - 1))
            * of_int (round_half_even (x / 2 powi (max e emin - (int p - 1))))"
      using e x(1) by (intro round_binary_binade) simp_all
    also have "\<dots> = 1 / 2 ^ j * of_int (m * 2 ^ j)"
      unfolding E u r by (rule refl)
    also have "\<dots> = x"
      by (simp add: x_def)
    finally show ?thesis
      by (simp add: x_def)
  qed
  consider "n = 0" | "0 < n" | "n < 0"
    by linarith
  then show ?thesis
  proof cases
    case 1
    then show ?thesis by simp
  next
    case 2
    with n show ?thesis
      by (intro pos) simp_all
  next
    case 3
    with n have "round_binary p emin (of_int (- n)) = of_int (- n)"
      by (intro pos) simp_all
    then show ?thesis
      using round_binary_minus [of p emin "of_int n"] by simp
  qed
qed

lemma round_double_mono: "mono round_double"
  unfolding round_double_def by (intro monoI round_binary_mono) simp

lemma round_double_0 [simp]: "round_double 0 = 0"
  by (simp add: round_double_def)

lemma round_double_minus: "round_double (- x) = - round_double x"
  by (simp add: round_double_def round_binary_minus)

lemma inverse_pow2_powi: "1 / 2 ^ n = (2::real) powi (- int n)"
  by (simp add: power_int_def field_simps)

lemma round_double_inverse_pow2:
  assumes "n \<le> 1074"
  shows "round_double (1 / 2 ^ n) = 1 / 2 ^ n"
  unfolding inverse_pow2_powi round_double_def using assms by (intro round_binary_powi) simp_all

lemma round_double_1 [simp]: "round_double 1 = 1"
  using round_double_inverse_pow2 [of 0] by simp

lemma round_double_underflow:
  assumes "\<bar>x\<bar> < 1 / 2 ^ 1075"
  shows "round_double x = 0"
proof -
  have "1 / 2 ^ 1075 = (2::real) powi (- 1022 - int 53)"
    using inverse_pow2_powi [of 1075] by simp
  with assms show ?thesis
    unfolding round_double_def by (intro round_binary_underflow) simp
qed

lemma sqrt_inverse_pow2: "sqrt (1 / 2 ^ (2 * n)) = 1 / 2 ^ n"
proof -
  have "(1 / 2 ^ (2 * n) :: real) = (1 / 2 ^ n) * (1 / 2 ^ n)"
    by (simp add: power_add mult_2)
  then show ?thesis
    by (simp only: real_sqrt_abs2) simp
qed


lemma inverse_pow2_mult: "(1 / 2 ^ m) * (1 / 2 ^ n) = (1 / 2 ^ (m + n) :: real)"
  by (simp add: power_add)

lemma inverse_pow2_pos: "(0::real) < 1 / 2 ^ n"
  by simp


lemma round_double_near_one: "round_double (1 - 1 / 2 ^ 60) = 1"
proof -
  have "round_double (1 - 1 / 2 ^ 60) = 2 powi (max (- 1) (- 1022) - (int 53 - 1))
           * of_int (round_half_even ((1 - 1 / 2 ^ 60) / 2 powi (max (- 1) (- 1022) - (int 53 - 1))))"
    unfolding round_double_def by (rule round_binary_binade) (simp_all add: power_int_minus)
  also have "\<dots> = 2 powi (- 53) * of_int (round_half_even ((1 - 1 / 2 ^ 60) / 2 powi (- 53)))"
    by simp
  also have "(1 - 1 / 2 ^ 60) / 2 powi (- 53) = (9007199254740992 - 1 / 128 :: real)"
    by (simp add: power_int_minus field_simps)
  also have "round_half_even (9007199254740992 - 1 / 128) = 9007199254740992"
  proof -
    have "\<lfloor>9007199254740992 - 1 / 128 :: real\<rfloor> = 9007199254740991"
      by (simp add: floor_eq_iff)
    then show ?thesis
      by (simp add: round_half_even_def Let_def)
  qed
  finally show ?thesis
    by (simp add: power_int_minus)
qed

lemma round_double_half [simp]: "round_double (1 / 2) = 1 / 2"
  using round_double_inverse_pow2 [of 1] by simp


lemma round_double_below_one: "round_double (1 - 1 / 2 ^ 53) = 1 - 1 / 2 ^ 53"
proof -
  have "round_double (1 - 1 / 2 ^ 53) = 2 powi (max (- 1) (- 1022) - (int 53 - 1))
           * of_int (round_half_even ((1 - 1 / 2 ^ 53) / 2 powi (max (- 1) (- 1022) - (int 53 - 1))))"
    unfolding round_double_def by (rule round_binary_binade) (simp_all add: power_int_minus)
  also have "\<dots> = 2 powi (- 53) * of_int (round_half_even ((1 - 1 / 2 ^ 53) / 2 powi (- 53)))"
    by simp
  also have "(1 - 1 / 2 ^ 53) / 2 powi (- 53) = real_of_int 9007199254740991"
    by (simp add: power_int_minus field_simps)
  also have "round_half_even (real_of_int 9007199254740991) = 9007199254740991"
    by (rule round_half_even_of_int)
  finally show ?thesis
    by (simp add: power_int_minus)
qed

lemma double_of_int_exact:
  assumes "\<bar>n\<bar> \<le> 2 ^ 53"
  shows "double_of_int n = of_int n"
  unfolding double_of_int_def round_double_def using assms by (intro round_binary_of_int) simp_all



subsection \<open>Camera\<close>

lemma float_of_int_0 [simp]: "float_of_int 0 = 0"
  by (simp add: float_of_int_def round_float_def)




text \<open>
  C9. The image-bounds check touches the validity only: \<open>Camera::PixelFromCameraPoint\<close>
  returns the pixel of the calibration's \<open>PixelFromCameraPoint\<close> and
  \<open>Camera::CameraRayFromPixel\<close> the ray of the calibration's \<open>CameraRayFromPixel\<close>,
  whether or not a validity is asked for and whatever the in-frame check says.
\<close>

theorem Camera_numeric_result_unchanged:
  "fst (PixelFromCameraPoint ops cam point epsilon is_valid) =
     fst (cal_PixelFromCameraPoint ops (calibration cam) point epsilon)
   \<and> fst (CameraRayFromPixel ops cam pixel epsilon is_valid) =
     fst (cal_CameraRayFromPixel ops (calibration cam) pixel epsilon)"
  by (simp add: PixelFromCameraPoint_def CameraRayFromPixel_def split: prod.splits)

subsection \<open>Storage\<close>

text \<open>
  C5. Flattening a value gives a vector of the type's \<open>StorageDim\<close>, and unflattening
  that vector gives the value back, component for component: for \<open>outputs_2_t\<close> (whatever
  the vector and the output struct held before), and for \<open>ATANCameraCal\<close>.
\<close>

theorem FromStorage_ToStorage:
  "(\<exists>v. ToStorage_outputs_2_t x (Some v0) = Some v
        \<and> length v = StorageDim_outputs_2_t
        \<and> FromStorage_outputs_2_t v (Some out0) = Some x)
   \<and> length (ToStorage cal) = StorageDim
   \<and> FromStorage (ToStorage cal) = Some cal"
proof -
  have "\<exists>v. ToStorage_outputs_2_t x (Some v0) = Some v
        \<and> length v = StorageDim_outputs_2_t
        \<and> FromStorage_outputs_2_t v (Some out0) = Some x"
    by (simp add: ToStorage_outputs_2_t_def FromStorage_outputs_2_t_def
          StorageDim_outputs_2_t_def resize_def)
  moreover obtain fx fy cx cy omega where "cal = ATANCameraCal (fx, fy, cx, cy, omega)"
    by (cases cal) auto
  then have "length (ToStorage cal) = StorageDim \<and> FromStorage (ToStorage cal) = Some cal"
    by (simp add: ToStorage_def FromStorage_def StorageDim_def StorageOps_StorageDim_def)
  ultimately show ?thesis
    by simp
qed

subsection \<open>IsApprox\<close>

text \<open>
  C4, as the code has it. When the stored vector of \<open>b\<close> is exactly zero, \<open>IsApprox\<close>
  compares the norm of \<open>a\<close> with \<open>tol\<close> and not relatively: it reports "approximately
  equal" exactly when the norm that Eigen computes in \<open>Scalar\<close> is a finite number
  strictly below \<open>tol\<close>. A computed norm equal to \<open>tol\<close> is reported as not approximately
  equal. Over exact arithmetic the computed norm is the Euclidean norm.
\<close>

theorem IsApprox_zero:
  assumes "Data b = Zero5"
  shows "IsApprox E a b tol = (case Eigen_norm E (Data a) of None \<Rightarrow> False | Some n \<Rightarrow> n < tol)
       \<and> IsApprox Eigen_exact a b tol = (norm5 (Data a) < tol)"
  using assms by (simp add: IsApprox_def Eigen_exact_def)

theorem IsApprox_zero_witness:
  "Data (ATANCameraCal (0, 0, 0, 0, 0)) = Zero5
   \<and> IsApprox Eigen_exact (ATANCameraCal (1, 0, 0, 0, 0)) (ATANCameraCal (0, 0, 0, 0, 0)) 2
   \<and> \<not> IsApprox Eigen_exact (ATANCameraCal (1, 0, 0, 0, 0)) (ATANCameraCal (0, 0, 0, 0, 0)) (1/2)"
proof -
  have h: "Data (ATANCameraCal (0, 0, 0, 0, 0)) = Zero5"
    by (simp add: Zero5_def)
  show ?thesis
    using h IsApprox_zero [OF h, of Eigen_exact "ATANCameraCal (1, 0, 0, 0, 0)" 2]
      IsApprox_zero [OF h, of Eigen_exact "ATANCameraCal (1, 0, 0, 0, 0)" "1/2"]
    by (simp add: norm5_def Eigen_exact_def)
qed

text \<open>
  C4 as it is written fails where the norm equals the tolerance: the norm of
  \<open>(1, 0, 0, 0, 0)\<close> is 1 and does not exceed the tolerance 1, and \<open>IsApprox\<close> against the
  zero element still answers "not approximately equal". Every intermediate value of this
  norm is 0 or 1, so that no rounding and no order of evaluation gives another norm.
\<close>

theorem IsApprox_zero_counterexample:
  "Eigen_norm Eigen_exact (Data (ATANCameraCal (1, 0, 0, 0, 0))) = Some 1
   \<and> \<not> (1::real) > 1
   \<and> \<not> IsApprox Eigen_exact (ATANCameraCal (1, 0, 0, 0, 0)) (ATANCameraCal (0, 0, 0, 0, 0)) 1"
  by (simp add: IsApprox_def Zero5_def norm5_def Eigen_exact_def)

subsection \<open>Pose3: the fused blocks against the group operations\<close>

text \<open>
  For a unit quaternion, \<^const>\<open>rotate\<close> is conjugation of the vector, taken as a quaternion
  with real part 0, by the quaternion.
\<close>

lemma rotate_unit_quaternion:
  assumes unit: "x * x + y * y + z * z + w * w = 1"
  shows "quaternion_product (quaternion_product (x, y, z, w) (p0, p1, p2, 0))
           (quaternion_conjugate (x, y, z, w))
         = (case rotate (x, y, z, w) (p0, p1, p2) of (r0, r1, r2) \<Rightarrow> (r0, r1, r2, 0))"
proof -
  have w: "w * w = 1 - (x * x + y * y + z * z)"
    using unit by simp
  show ?thesis
    by (simp add: algebra_simps w)
qed

text \<open>
  C1. For every \<open>Pose3\<close> \<open>a\<close>, every tangent vector and every epsilon, \<open>Retract\<close> gives
  the 7-vector of \<open>Compose(a, FromTangent(vec, epsilon))\<close>: the quaternion product of the
  rotation of \<open>a\<close> with that of the exponential, and the translation of \<open>a\<close> plus the
  rotation of \<open>a\<close> applied to the translation of the exponential.
\<close>

theorem Retract_eq_Compose_FromTangent:
  "Retract a vec epsilon = Compose a (FromTangent vec epsilon)"
proof -
  obtain a0 a1 a2 a3 a4 a5 a6 where a: "a = Pose3 (a0, a1, a2, a3, a4, a5, a6)"
    by (cases a) auto
  obtain vec0 vec1 vec2 vec3 vec4 vec5 where v: "vec = (vec0, vec1, vec2, vec3, vec4, vec5)"
    by (cases vec) auto
  define q where "q = vec2 * vec2 + vec1 * vec1 + vec0 * vec0 + epsilon * epsilon"
  define n where "n = sqrt q"
  define s where "s = sin ((1 / 2) * n) / n"
  define c where "c = cos ((1 / 2) * n)"
  define t where "t = (n - sin n) / (q * n)"
  define u where "u = (- cos n + 1) / q"
  show ?thesis
    unfolding a v Retract_def Compose_def FromTangent_def Let_def prod.case Pose3.case
    unfolding q_def [symmetric]
    unfolding n_def [symmetric]
    unfolding s_def [symmetric] c_def [symmetric] t_def [symmetric] u_def [symmetric]
    by (simp add: algebra_simps)
qed

text \<open>
  C2. For every pair of \<open>Pose3\<close> \<open>a\<close>, \<open>b\<close> and every epsilon, \<open>LocalCoordinates\<close> gives
  the 6-vector of \<open>ToTangent\<close> at \<open>Between(a, b) = Compose(Inverse(a), b)\<close>.
\<close>

theorem LocalCoordinates_eq_ToTangent_Between:
  "LocalCoordinates a b epsilon = ToTangent (Between a b) epsilon"
proof -
  obtain a0 a1 a2 a3 a4 a5 a6 where a: "a = Pose3 (a0, a1, a2, a3, a4, a5, a6)"
    by (cases a) auto
  obtain b0 b1 b2 b3 b4 b5 b6 where b: "b = Pose3 (b0, b1, b2, b3, b4, b5, b6)"
    by (cases b) auto
  define x0 where "x0 = - a0 * b3 - a1 * b2 + a2 * b1 + a3 * b0"
  define w where "w = a0 * b0 + a1 * b1 + a2 * b2 + a3 * b3"
  define x1 where "x1 = a0 * b2 - a1 * b3 - a2 * b0 + a3 * b1"
  define x2 where "x2 = - a0 * b1 + a1 * b0 - a2 * b3 + a3 * b2"
  define p2 where "p2 =
    (let tmp8 = - 2 * (a0 * a0);
         tmp9 = - 2 * (a1 * a1) + 1;
         tmp10 = tmp8 + tmp9;
         tmp11 = 2 * a0;
         tmp12 = a3 * tmp11;
         tmp13 = 2 * a2;
         tmp14 = a1 * tmp13;
         tmp15 = - tmp12 + tmp14;
         tmp16 = 2 * a1 * a3;
         tmp17 = a2 * tmp11;
         tmp18 = tmp16 + tmp17
     in - a4 * tmp18 - a5 * tmp15 - a6 * tmp10 + b4 * tmp18 + b5 * tmp15 + b6 * tmp10)"
  define p1 where "p1 =
    (let tmp8 = - 2 * (a0 * a0);
         tmp11 = 2 * a0;
         tmp12 = a3 * tmp11;
         tmp13 = 2 * a2;
         tmp14 = a1 * tmp13;
         tmp32 = tmp12 + tmp14;
         tmp33 = - 2 * (a2 * a2);
         tmp34 = tmp33 + tmp8 + 1;
         tmp35 = a3 * tmp13;
         tmp36 = a1 * tmp11;
         tmp37 = - tmp35 + tmp36
     in - a4 * tmp37 - a5 * tmp34 - a6 * tmp32 + b4 * tmp37 + b5 * tmp34 + b6 * tmp32)"
  define p0 where "p0 =
    (let tmp9 = - 2 * (a1 * a1) + 1;
         tmp11 = 2 * a0;
         tmp13 = 2 * a2;
         tmp16 = 2 * a1 * a3;
         tmp17 = a2 * tmp11;
         tmp33 = - 2 * (a2 * a2);
         tmp35 = a3 * tmp13;
         tmp36 = a1 * tmp11;
         tmp41 = - tmp16 + tmp17;
         tmp42 = tmp35 + tmp36;
         tmp43 = tmp33 + tmp9
     in - a4 * tmp43 - a5 * tmp42 - a6 * tmp41 + b4 * tmp43 + b5 * tmp42 + b6 * tmp41)"
  have B: "Between a b = Pose3 (x0, x1, x2, w, p0, p1, p2)"
    unfolding a b Between_def Compose_def Inverse_def x0_def x1_def x2_def w_def p0_def p1_def p2_def
    by (simp add: Let_def algebra_simps)
  define ac where "ac = arccos (acos_arg w epsilon)"
  define m where "m = max epsilon (- (w * w) + 1)"
  define d where "d = ac / sqrt m"
  define f where "f = 4 * (ac * ac) / m"
  define L where "L = f * (x2 * x2) + f * (x1 * x1) + (x0 * x0) * f + epsilon"
  have L': "(x2 * x2) * f + (x1 * x1) * f + (x0 * x0) * f + epsilon = L"
    by (simp add: L_def mult.commute)
  define k where "k = (- 1 / 2 * sqrt L * cos (0.5 * sqrt L) / sin (0.5 * sqrt L) + 1) / L"
  have lhs: "LocalCoordinates a b epsilon =
    (x0 * (2 * d), 2 * d * x1, 2 * d * x2,
     p2 * (x0 * f * k * x2 - 1 * d * x1) + p1 * (x0 * f * k * x1 + 1 * d * x2)
       + p0 * (k * (- (f * (x1 * x1)) + - (f * (x2 * x2))) + 1),
     p2 * (f * k * x1 * x2 + x0 * (1 * d)) + p1 * (k * (- (f * (x2 * x2)) + - (x0 * x0 * f)) + 1)
       + p0 * (x0 * f * k * x1 - 1 * d * x2),
     p2 * (k * (- (f * (x1 * x1)) + - (x0 * x0 * f)) + 1) + p1 * (f * k * x1 * x2 - x0 * (1 * d))
       + p0 * (x0 * f * k * x2 + 1 * d * x1))"
    unfolding a b LocalCoordinates_def Let_def prod.case Pose3.case
    unfolding x0_def [symmetric] w_def [symmetric] x1_def [symmetric] x2_def [symmetric]
      p0_def [unfolded Let_def, symmetric] p1_def [unfolded Let_def, symmetric]
      p2_def [unfolded Let_def, symmetric]
    unfolding ac_def [symmetric]
    unfolding m_def [symmetric]
    unfolding d_def [symmetric] f_def [symmetric]
    unfolding L_def [symmetric]
    unfolding k_def [symmetric]
    by (rule refl)
  have rhs: "ToTangent (Pose3 (x0, x1, x2, w, p0, p1, p2)) epsilon =
    (x0 * (2 * d), x1 * (2 * d), x2 * (2 * d),
     p0 * (k * (- (x1 * x1 * f) + - (x2 * x2 * f)) + 1) + p1 * (x0 * x1 * k * f + x2 * (1 * d))
       + p2 * (x0 * (x2 * k * f) - x1 * (1 * d)),
     p0 * (x0 * x1 * k * f - x2 * (1 * d)) + p1 * (k * (- (x2 * x2 * f) + - (x0 * x0 * f)) + 1)
       + p2 * (x1 * (x2 * k * f) + x0 * (1 * d)),
     p0 * (x0 * (x2 * k * f) + x1 * (1 * d)) + p1 * (x1 * (x2 * k * f) - x0 * (1 * d))
       + p2 * (k * (- (x1 * x1 * f) + - (x0 * x0 * f)) + 1))"
    unfolding ToTangent_def Let_def prod.case Pose3.case
    unfolding ac_def [symmetric]
    unfolding m_def [symmetric]
    unfolding d_def [symmetric] f_def [symmetric]
    unfolding L'
    unfolding k_def [symmetric]
    by (rule refl)
  show ?thesis
    unfolding B lhs rhs by (simp add: algebra_simps)
qed

subsection \<open>Pose3: the blocks with rounding, over exact and over double arithmetic\<close>

text \<open>
  Over exact arithmetic the blocks with the rounding written out are the blocks of the
  first embedding: they return its result, with no error, for a nonzero epsilon in
  \<open>FromTangent\<close> and for an epsilon between 0 and 1 in \<open>ToTangent\<close> and
  \<open>LocalCoordinates\<close>.
\<close>

lemma double_arith_simps [simp]:
  "rnd double_arith = round_double"
  "sin_S double_arith = (\<lambda>x. round_double (sin x))"
  "cos_S double_arith = (\<lambda>x. round_double (cos x))"
  "acos_S double_arith = (\<lambda>x. round_double (arccos x))"
  by (simp_all add: double_arith_def)

lemma exact_arith_simps [simp]:
  "rnd exact_arith x = x"
  "sin_S exact_arith x = sin x"
  "cos_S exact_arith x = cos x"
  "acos_S exact_arith x = arccos x"
  by (simp_all add: exact_arith_def)

lemma FromTangent_S_exact:
  assumes "epsilon \<noteq> 0"
  shows "FromTangent_S exact_arith vec epsilon = Inr (FromTangent vec epsilon)"
proof -
  obtain vec0 vec1 vec2 vec3 vec4 vec5 where v: "vec = (vec0, vec1, vec2, vec3, vec4, vec5)"
    by (cases vec) auto
  define T3 where "T3 = vec2 * vec2 + vec1 * vec1 + vec0 * vec0 + epsilon * epsilon"
  have "0 < epsilon * epsilon"
    using assms by (auto simp add: zero_less_mult_iff)
  moreover have "0 \<le> vec2 * vec2" "0 \<le> vec1 * vec1" "0 \<le> vec0 * vec0"
    by simp_all
  ultimately have pos: "0 < T3"
    unfolding T3_def by linarith
  then have nz: "T3 \<noteq> 0" "sqrt T3 \<noteq> 0"
    by simp_all
  show ?thesis
    unfolding v FromTangent_S_def FromTangent_def Let_def prod.case exact_arith_simps
    unfolding T3_def [symmetric]
    using nz by (simp add: div_S_def)
qed

lemma ToTangent_S_exact:
  assumes "0 < epsilon" "epsilon < 1"
  shows "ToTangent_S exact_arith a epsilon = Inr (ToTangent a epsilon)"
proof -
  obtain a0 a1 a2 a3 a4 a5 a6 where a: "a = Pose3 (a0, a1, a2, a3, a4, a5, a6)"
    by (cases a) auto
  have d: "- 1 \<le> acos_arg a3 epsilon \<and> acos_arg a3 epsilon \<le> 1"
    using assms by (auto simp add: acos_arg_def max_def min_def)
  show ?thesis
    unfolding a ToTangent_S_def ToTangent_def Let_def Pose3.case prod.case exact_arith_simps
    unfolding acos_arg_def [symmetric]
    using d by (simp add: acos_checked_def)
qed

lemma LocalCoordinates_S_exact:
  assumes "0 < epsilon" "epsilon < 1"
  shows "LocalCoordinates_S exact_arith a b epsilon = Inr (LocalCoordinates a b epsilon)"
proof -
  obtain a0 a1 a2 a3 a4 a5 a6 where a: "a = Pose3 (a0, a1, a2, a3, a4, a5, a6)"
    by (cases a) auto
  obtain b0 b1 b2 b3 b4 b5 b6 where b: "b = Pose3 (b0, b1, b2, b3, b4, b5, b6)"
    by (cases b) auto
  define t where "t = a0 * b0 + a1 * b1 + a2 * b2 + a3 * b3"
  have d: "- 1 \<le> acos_arg t epsilon \<and> acos_arg t epsilon \<le> 1"
    using assms by (auto simp add: acos_arg_def max_def min_def)
  show ?thesis
    unfolding a b LocalCoordinates_S_def LocalCoordinates_def Let_def Pose3.case prod.case
      exact_arith_simps
    unfolding t_def [symmetric]
    unfolding acos_arg_def [symmetric]
    using d by (simp add: acos_checked_def)
qed

subsection \<open>Pose3: the guard of the logarithm\<close>

text \<open>
  \<open>ToTangent\<close> and \<open>LocalCoordinates\<close> return without an error of the domain of
  \<open>std::acos\<close> exactly when the clamped argument, \<^const>\<open>acos_arg_S\<close> at \<open>_a[3]\<close> and
  at \<open>_tmp1\<close>, is in \<open>[-1, 1]\<close>: this is their one call of \<open>std::acos\<close>.
\<close>

lemma ToTangent_S_acos_domain:
  "(\<exists>r. ToTangent_S S a epsilon = Inr r)
     = (- 1 \<le> acos_arg_S S (ToTangent_a3 a) epsilon \<and> acos_arg_S S (ToTangent_a3 a) epsilon \<le> 1)"
proof -
  obtain a0 a1 a2 a3 a4 a5 a6 where a: "a = Pose3 (a0, a1, a2, a3, a4, a5, a6)"
    by (cases a) auto
  show ?thesis
    unfolding a ToTangent_S_def ToTangent_a3_def Let_def Pose3.case prod.case
    unfolding acos_arg_S_def [symmetric]
    by (simp add: acos_checked_def)
qed

lemma LocalCoordinates_S_acos_domain:
  "(\<exists>r. LocalCoordinates_S S a b epsilon = Inr r)
     = (- 1 \<le> acos_arg_S S (LocalCoordinates_tmp1_S S a b) epsilon
        \<and> acos_arg_S S (LocalCoordinates_tmp1_S S a b) epsilon \<le> 1)"
proof -
  obtain a0 a1 a2 a3 a4 a5 a6 where a: "a = Pose3 (a0, a1, a2, a3, a4, a5, a6)"
    by (cases a) auto
  obtain b0 b1 b2 b3 b4 b5 b6 where b: "b = Pose3 (b0, b1, b2, b3, b4, b5, b6)"
    by (cases b) auto
  define t where "t = rnd S (rnd S (rnd S (rnd S (a0 * b0) + rnd S (a1 * b1)) + rnd S (a2 * b2))
             + rnd S (a3 * b3))"
  show ?thesis
    unfolding a b LocalCoordinates_S_def LocalCoordinates_tmp1_S_def Let_def Pose3.case prod.case
    unfolding t_def [symmetric]
    unfolding acos_arg_S_def [symmetric]
    by (simp add: acos_checked_def)
qed

lemma acos_arg_S_bounds:
  assumes mono: "mono (rnd S)" and one: "rnd S 1 = 1" and mone: "rnd S (- 1) = - 1"
    and eps: "0 < epsilon" "epsilon < 1"
  shows "- 1 \<le> rnd S (epsilon - 1)" and "rnd S (epsilon - 1) \<le> rnd S (- epsilon + 1)"
    and "rnd S (- epsilon + 1) \<le> 1"
proof -
  have "rnd S (- 1) \<le> rnd S (epsilon - 1)"
    using eps by (intro monoD [OF mono]) simp
  then show "- 1 \<le> rnd S (epsilon - 1)"
    by (simp add: mone)
  show "rnd S (epsilon - 1) \<le> rnd S (- epsilon + 1)"
    using eps by (intro monoD [OF mono]) simp
  have "rnd S (- epsilon + 1) \<le> rnd S 1"
    using eps by (intro monoD [OF mono]) simp
  then show "rnd S (- epsilon + 1) \<le> 1"
    by (simp add: one)
qed


text \<open>
  C6, as the code has it. The rounding is monotone and leaves 1 and -1 as they are, as
  every rounding to nearest does. Then for every epsilon with \<open>0 < epsilon < 1\<close>, every
  element (or pair of elements) and every value \<open>x\<close> of the real component,
  \<open>ToTangent\<close> and \<open>LocalCoordinates\<close> never evaluate \<open>std::acos\<close> outside its domain,
  and its argument is clamped to the interval between the bounds as they are computed,
  the roundings of \<open>epsilon - 1\<close> and of \<open>1 - epsilon\<close>, which lies in \<open>[-1, 1]\<close>. The
  argument is strictly above -1 when the computed lower bound is, and strictly below 1
  when the computed upper bound is.
\<close>

theorem acos_arg_S_clamped:
  assumes mono: "mono (rnd S)" and one: "rnd S 1 = 1" and mone: "rnd S (- 1) = - 1"
    and eps: "0 < epsilon" "epsilon < 1"
  shows "(\<exists>r. ToTangent_S S a epsilon = Inr r)
       \<and> (\<exists>r. LocalCoordinates_S S a b epsilon = Inr r)
       \<and> rnd S (epsilon - 1) \<le> acos_arg_S S x epsilon
       \<and> acos_arg_S S x epsilon \<le> rnd S (- epsilon + 1)
       \<and> - 1 \<le> acos_arg_S S x epsilon \<and> acos_arg_S S x epsilon \<le> 1
       \<and> (- 1 < rnd S (epsilon - 1) \<longrightarrow> - 1 < acos_arg_S S x epsilon)
       \<and> (rnd S (- epsilon + 1) < 1 \<longrightarrow> acos_arg_S S x epsilon < 1)"
proof -
  note b = acos_arg_S_bounds [OF mono one mone eps]
  have r: "- 1 \<le> acos_arg_S S y epsilon \<and> acos_arg_S S y epsilon \<le> 1" for y
    using b by (auto simp add: acos_arg_S_def max_def min_def)
  have "\<exists>r. ToTangent_S S a epsilon = Inr r"
    unfolding ToTangent_S_acos_domain by (rule r)
  moreover have "\<exists>r. LocalCoordinates_S S a b epsilon = Inr r"
    unfolding LocalCoordinates_S_acos_domain by (rule r)
  moreover have "rnd S (epsilon - 1) \<le> acos_arg_S S x epsilon"
    by (simp add: acos_arg_S_def)
  moreover have "acos_arg_S S x epsilon \<le> rnd S (- epsilon + 1)"
    using b by (auto simp add: acos_arg_S_def max_def min_def)
  moreover have "- 1 < rnd S (epsilon - 1) \<longrightarrow> - 1 < acos_arg_S S x epsilon"
    by (auto simp add: acos_arg_S_def max_def min_def)
  moreover have "rnd S (- epsilon + 1) < 1 \<longrightarrow> acos_arg_S S x epsilon < 1"
    using b by (auto simp add: acos_arg_S_def max_def min_def)
  ultimately show ?thesis
    using r [of x] by blast
qed

theorem acos_arg_S_clamped_witness:
  "mono (rnd double_arith) \<and> rnd double_arith 1 = 1 \<and> rnd double_arith (- 1) = - 1
   \<and> (0::real) < 1 / 2 \<and> (1 / 2 :: real) < 1
   \<and> - 1 < rnd double_arith (1 / 2 - 1) \<and> rnd double_arith (- (1 / 2) + 1) < 1
   \<and> (\<exists>r. ToTangent_S double_arith (Pose3 (0, 0, 0, 1, 0, 0, 0)) (1 / 2) = Inr r)
   \<and> (\<exists>r. LocalCoordinates_S double_arith (Pose3 (0, 0, 0, 1, 0, 0, 0))
             (Pose3 (0, 0, 1, 0, 1, 2, 3)) (1 / 2) = Inr r)
   \<and> rnd double_arith (1 / 2 - 1) \<le> acos_arg_S double_arith 1 (1 / 2)
   \<and> acos_arg_S double_arith 1 (1 / 2) \<le> rnd double_arith (- (1 / 2) + 1)
   \<and> - 1 < acos_arg_S double_arith 1 (1 / 2)
   \<and> acos_arg_S double_arith 1 (1 / 2) < 1"
proof -
  have h1: "mono (rnd double_arith)"
    by (simp add: round_double_mono)
  have h2: "rnd double_arith 1 = 1"
    by simp
  have h3: "rnd double_arith (- 1) = - 1"
    by (simp add: round_double_minus)
  have h4: "(0::real) < 1 / 2" "(1 / 2 :: real) < 1"
    by simp_all
  have h5: "- 1 < rnd double_arith (1 / 2 - 1)"
    using round_double_minus [of "1 / 2"] by simp
  have h6: "rnd double_arith (- (1 / 2) + 1) < 1"
    by simp
  show ?thesis
    using h1 h2 h3 h4 h5 h6
      acos_arg_S_clamped [OF h1 h2 h3 h4, of "Pose3 (0, 0, 0, 1, 0, 0, 0)"
        "Pose3 (0, 0, 1, 0, 1, 2, 3)" 1]
    by blast
qed

text \<open>
  In \<open>double\<close> the computed bounds are strictly inside \<open>[-1, 1]\<close> for every epsilon
  from \<open>2 ^ (-53)\<close> up, and so is the argument of \<open>std::acos\<close>.
\<close>

lemma acos_arg_S_double_strict:
  assumes "1 / 2 ^ 53 \<le> epsilon" "epsilon < 1"
  shows "- 1 < acos_arg_S double_arith x epsilon \<and> acos_arg_S double_arith x epsilon < 1"
proof -
  define d where "d = (1 - 1 / 2 ^ 53 :: real)"
  have d1: "round_double d = d"
    unfolding d_def by (rule round_double_below_one)
  have d2: "d < 1" "- epsilon + 1 \<le> d"
    using assms by (simp_all add: d_def)
  note d = d1 d2
  have "round_double (- epsilon + 1) \<le> round_double d"
    using d(3) by (rule monoD [OF round_double_mono])
  with d have hi: "round_double (- epsilon + 1) < 1"
    by linarith
  have "- d \<le> epsilon - 1"
    using d(3) by simp
  then have "round_double (- d) \<le> round_double (epsilon - 1)"
    by (rule monoD [OF round_double_mono])
  with d have lo: "- 1 < round_double (epsilon - 1)"
    by (simp add: round_double_minus)
  have mid: "round_double (epsilon - 1) \<le> round_double (- epsilon + 1)"
    using assms(2) by (intro monoD [OF round_double_mono]) simp
  show ?thesis
    using hi lo mid by (auto simp add: acos_arg_S_def max_def min_def)
qed

text \<open>
  C6 as it is written fails for an epsilon so small that \<open>1 - epsilon\<close> is rounded to 1:
  in \<open>double\<close>, with \<open>epsilon = 2 ^ (-60)\<close>, the bounds \<open>epsilon - 1\<close> and
  \<open>-epsilon + 1\<close> are computed as -1 and 1, and the argument of \<open>std::acos\<close> is 1 for the
  real component 1 (the identity rotation) and -1 for the real component -1: on the
  boundary of \<open>[-1, 1]\<close>, and outside \<open>[epsilon - 1, 1 - epsilon]\<close>.
\<close>

theorem acos_arg_S_clamped_counterexample:
  "(0::real) < 1 / 2 ^ 60 \<and> (1 / 2 ^ 60 :: real) < 1
   \<and> ToTangent_a3 (Pose3 (0, 0, 0, 1, 0, 0, 0)) = 1
   \<and> acos_arg_S double_arith 1 (1 / 2 ^ 60) = 1
   \<and> \<not> acos_arg_S double_arith 1 (1 / 2 ^ 60) \<le> 1 - 1 / 2 ^ 60
   \<and> ToTangent_a3 (Pose3 (1, 0, 0, - 1, 0, 0, 0)) = - 1
   \<and> acos_arg_S double_arith (- 1) (1 / 2 ^ 60) = - 1
   \<and> \<not> 1 / 2 ^ 60 - 1 \<le> acos_arg_S double_arith (- 1) (1 / 2 ^ 60)"
proof -
  define e where "e = (1 / 2 ^ 60 :: real)"
  have e: "0 < e" "e < 1"
    by (simp_all add: e_def)
  have n: "round_double (1 - e) = 1"
    unfolding e_def by (rule round_double_near_one)
  have "e - 1 = - (1 - e)"
    by simp
  then have m: "round_double (e - 1) = - 1"
    by (simp only: round_double_minus n)
  have "- e + 1 = 1 - e"
    by simp
  then have p: "round_double (- e + 1) = 1"
    by (simp only: n)
  have hi: "acos_arg_S double_arith 1 e = 1"
    unfolding acos_arg_S_def double_arith_simps m p by simp
  have lo: "acos_arg_S double_arith (- 1) e = - 1"
    unfolding acos_arg_S_def double_arith_simps m p by simp
  show ?thesis
    unfolding e_def [symmetric] hi lo using e by (simp add: ToTangent_a3_def)
qed

subsection \<open>Pose3: the guard of the exponential\<close>

lemma FromTangent_tmp3_S_lower:
  assumes mono: "mono (rnd S)" and zero: "rnd S 0 = 0"
    and lo: "rnd S lo = lo" "lo \<le> epsilon * epsilon"
  shows "lo \<le> FromTangent_tmp3_S S vec epsilon"
proof -
  obtain vec0 vec1 vec2 vec3 vec4 vec5 where v: "vec = (vec0, vec1, vec2, vec3, vec4, vec5)"
    by (cases vec) auto
  have nonneg: "0 \<le> rnd S x" if "0 \<le> x" for x
    using monoD [OF mono that] by (simp add: zero)
  define s1 where "s1 = rnd S (rnd S (vec2 * vec2) + rnd S (vec1 * vec1))"
  define s2 where "s2 = rnd S (s1 + rnd S (vec0 * vec0))"
  have "0 \<le> s1"
    unfolding s1_def by (intro nonneg add_nonneg_nonneg) simp_all
  then have "0 \<le> s2"
    unfolding s2_def by (intro nonneg add_nonneg_nonneg) simp_all
  moreover have "lo \<le> rnd S (epsilon * epsilon)"
    using monoD [OF mono lo(2)] by (simp add: lo(1))
  ultimately have "lo \<le> s2 + rnd S (epsilon * epsilon)"
    by linarith
  then have "rnd S lo \<le> rnd S (s2 + rnd S (epsilon * epsilon))"
    by (rule monoD [OF mono])
  then show ?thesis
    by (simp add: FromTangent_tmp3_S_def v Let_def s1_def s2_def lo(1))
qed

text \<open>
  C7, as the code has it. The rounding is monotone and leaves 0 as it is. Let \<open>lo\<close> be
  a positive \<open>Scalar\<close> whose square root, and whose product with its square root, are not
  rounded to zero. Then for every tangent vector (the zero vector too) and every epsilon
  whose square is at least \<open>lo\<close>, the three denominators of \<open>FromTangent\<close> as it computes
  them (the guarded norm \<open>_tmp4\<close>, its square \<open>_tmp3\<close> and its cube
  \<open>_tmp3 * std::sqrt(_tmp3)\<close>) are strictly positive, and \<open>FromTangent\<close> returns
  without dividing by zero. In \<open>double\<close>, \<open>lo = 2 ^ (-700)\<close> is such a number, which
  covers every epsilon of absolute value at least \<open>2 ^ (-350)\<close>; over exact arithmetic
  the square of every nonzero epsilon is.
\<close>

theorem FromTangent_S_denominators_positive:
  assumes mono: "mono (rnd S)" and zero: "rnd S 0 = 0"
    and lo: "0 < lo" "rnd S lo = lo" "lo \<le> epsilon * epsilon"
    and root: "0 < rnd S (sqrt lo)"
    and cube: "0 < rnd S (lo * rnd S (sqrt lo))"
  shows "0 < rnd S (sqrt (FromTangent_tmp3_S S vec epsilon))
         \<and> 0 < FromTangent_tmp3_S S vec epsilon
         \<and> 0 < rnd S (FromTangent_tmp3_S S vec epsilon
                    * rnd S (sqrt (FromTangent_tmp3_S S vec epsilon)))
         \<and> (\<exists>r. FromTangent_S S vec epsilon = Inr r)"
proof -
  obtain vec0 vec1 vec2 vec3 vec4 vec5 where v: "vec = (vec0, vec1, vec2, vec3, vec4, vec5)"
    by (cases vec) auto
  define T3 where "T3 = rnd S (rnd S (rnd S (rnd S (vec2 * vec2) + rnd S (vec1 * vec1))
      + rnd S (vec0 * vec0)) + rnd S (epsilon * epsilon))"
  have t3: "FromTangent_tmp3_S S vec epsilon = T3"
    by (simp add: FromTangent_tmp3_S_def v Let_def T3_def)
  have ge: "lo \<le> T3"
    using FromTangent_tmp3_S_lower [OF mono zero lo(2) lo(3), of vec] by (simp add: t3)
  with lo(1) have square: "0 < T3"
    by linarith
  have "sqrt lo \<le> sqrt T3"
    using ge by simp
  then have rge: "rnd S (sqrt lo) \<le> rnd S (sqrt T3)"
    by (rule monoD [OF mono])
  with root have norm: "0 < rnd S (sqrt T3)"
    by linarith
  have "lo * rnd S (sqrt lo) \<le> T3 * rnd S (sqrt T3)"
    using ge rge lo(1) root by (intro mult_mono) simp_all
  then have "rnd S (lo * rnd S (sqrt lo)) \<le> rnd S (T3 * rnd S (sqrt T3))"
    by (rule monoD [OF mono])
  with cube have cb: "0 < rnd S (T3 * rnd S (sqrt T3))"
    by linarith
  have "\<exists>r. FromTangent_S S vec epsilon = Inr r"
    unfolding v FromTangent_S_def Let_def prod.case
    unfolding T3_def [symmetric]
    using square norm cb by (simp add: div_S_def)
  with square norm cb show ?thesis
    unfolding t3 by simp
qed

theorem FromTangent_S_denominators_positive_witness:
  "mono (rnd double_arith) \<and> rnd double_arith 0 = 0
   \<and> (0::real) < 1 / 2 ^ 700 \<and> rnd double_arith (1 / 2 ^ 700) = 1 / 2 ^ 700
   \<and> (1 / 2 ^ 700 :: real) \<le> (1 / 2 ^ 350) * (1 / 2 ^ 350)
   \<and> 0 < rnd double_arith (sqrt (1 / 2 ^ 700))
   \<and> 0 < rnd double_arith (1 / 2 ^ 700 * rnd double_arith (sqrt (1 / 2 ^ 700)))
   \<and> 0 < rnd double_arith (sqrt (FromTangent_tmp3_S double_arith (0, 0, 0, 1, 2, 3) (1 / 2 ^ 350)))
   \<and> 0 < FromTangent_tmp3_S double_arith (0, 0, 0, 1, 2, 3) (1 / 2 ^ 350)
   \<and> 0 < rnd double_arith (FromTangent_tmp3_S double_arith (0, 0, 0, 1, 2, 3) (1 / 2 ^ 350)
              * rnd double_arith
                  (sqrt (FromTangent_tmp3_S double_arith (0, 0, 0, 1, 2, 3) (1 / 2 ^ 350))))
   \<and> (\<exists>r. FromTangent_S double_arith (0, 0, 0, 1, 2, 3) (1 / 2 ^ 350) = Inr r)"
proof -
  have h1: "mono (rnd double_arith)"
    by (simp add: round_double_mono)
  have h2: "rnd double_arith 0 = 0"
    by simp
  have h3: "(0::real) < 1 / 2 ^ 700"
    by (rule divide_pos_pos) (rule zero_less_one, rule zero_less_power, simp)
  have h4: "rnd double_arith (1 / 2 ^ 700) = 1 / 2 ^ 700"
    unfolding double_arith_simps by (rule round_double_inverse_pow2) simp
  have sq: "(1 / 2 ^ 350) * (1 / 2 ^ 350) = (1 / 2 ^ 700 :: real)"
    unfolding times_divide_times_eq power_add [symmetric] by simp
  have h5: "(1 / 2 ^ 700 :: real) \<le> (1 / 2 ^ 350) * (1 / 2 ^ 350)"
    unfolding sq by (rule order_refl)
  have s: "sqrt (1 / 2 ^ 700) = 1 / 2 ^ 350"
    using sqrt_inverse_pow2 [of 350] by (simp only: mult_2 numeral_plus_numeral) simp
  have r350: "round_double (1 / 2 ^ 350) = 1 / 2 ^ 350"
    by (rule round_double_inverse_pow2) simp
  have pos350: "(0::real) < 1 / 2 ^ 350"
    by (rule divide_pos_pos) (rule zero_less_one, rule zero_less_power, simp)
  have h6: "0 < rnd double_arith (sqrt (1 / 2 ^ 700))"
    unfolding s double_arith_simps r350 by (rule pos350)
  have p: "(1 / 2 ^ 700 * (1 / 2 ^ 350) :: real) = 1 / 2 ^ 1050"
    unfolding times_divide_times_eq power_add [symmetric] by simp
  have r1050: "round_double (1 / 2 ^ 1050) = 1 / 2 ^ 1050"
    by (rule round_double_inverse_pow2) simp
  have pos1050: "(0::real) < 1 / 2 ^ 1050"
    by (rule divide_pos_pos) (rule zero_less_one, rule zero_less_power, simp)
  have h7: "0 < rnd double_arith (1 / 2 ^ 700 * rnd double_arith (sqrt (1 / 2 ^ 700)))"
    unfolding s double_arith_simps r350 p r1050 by (rule pos1050)
  show ?thesis
    using h1 h2 h3 h4 h5 h6 h7
      FromTangent_S_denominators_positive [OF h1 h2 h3 h4 h5 h6 h7, of "(0, 0, 0, 1, 2, 3)"]
    by blast
qed

text \<open>
  C7 as it is written fails for a nonzero epsilon whose square, or the cube of whose
  absolute value, is rounded to zero. In \<open>double\<close>, at the tangent vector
  \<open>(0, 0, 0, 1, 2, 3)\<close> of a pure translation: with \<open>epsilon = 2 ^ (-600)\<close> the square
  underflows, the guarded squared norm \<open>_tmp3\<close> is 0 and the first division is by zero;
  with \<open>epsilon = 2 ^ (-400)\<close> the norm and its square are positive, the cube underflows
  and the division of \<open>_tmp7\<close> is by zero.
\<close>

theorem FromTangent_S_denominators_positive_counterexample:
  "(1 / 2 ^ 600 :: real) \<noteq> 0
   \<and> FromTangent_tmp3_S double_arith (0, 0, 0, 1, 2, 3) (1 / 2 ^ 600) = 0
   \<and> FromTangent_S double_arith (0, 0, 0, 1, 2, 3) (1 / 2 ^ 600) = Inl DivisionByZero
   \<and> (1 / 2 ^ 400 :: real) \<noteq> 0
   \<and> rnd double_arith (FromTangent_tmp3_S double_arith (0, 0, 0, 1, 2, 3) (1 / 2 ^ 400)
         * rnd double_arith (sqrt (FromTangent_tmp3_S double_arith (0, 0, 0, 1, 2, 3) (1 / 2 ^ 400))))
       = 0
   \<and> FromTangent_S double_arith (0, 0, 0, 1, 2, 3) (1 / 2 ^ 400) = Inl DivisionByZero"
proof -
  define a where "a = (1 / 2 ^ 600 :: real)"
  have a: "a \<noteq> 0"
    unfolding a_def using inverse_pow2_pos [of 600] by linarith
  have u: "round_double (1 / 2 ^ 1200) = 0"
    by (rule round_double_underflow) (simp add: field_simps)
  have e: "a * a = 1 / 2 ^ 1200"
    unfolding a_def inverse_pow2_mult by simp
  have aa: "round_double (a * a) = 0"
    unfolding e by (rule u)
  have A3: "FromTangent_tmp3_S double_arith (0, 0, 0, 1, 2, 3) a = 0"
    by (simp add: FromTangent_tmp3_S_def aa)
  have A: "FromTangent_S double_arith (0, 0, 0, 1, 2, 3) a = Inl DivisionByZero"
    by (simp add: FromTangent_S_def aa div_S_def)
  define b where "b = (1 / 2 ^ 400 :: real)"
  define c where "c = (1 / 2 ^ 800 :: real)"
  have b: "0 < b"
    unfolding b_def by (rule inverse_pow2_pos)
  have bb: "b * b = c"
    unfolding b_def c_def inverse_pow2_mult by simp
  have rc: "round_double c = c"
    unfolding c_def by (rule round_double_inverse_pow2) simp
  have rb: "round_double b = b"
    unfolding b_def by (rule round_double_inverse_pow2) simp
  have sc: "sqrt c = b"
    unfolding b_def c_def using sqrt_inverse_pow2 [of 400] by simp
  have e': "c * b = 1 / 2 ^ 1200"
    unfolding b_def c_def inverse_pow2_mult by simp
  have cb: "round_double (c * b) = 0"
    unfolding e' by (rule u)
  have B3: "FromTangent_tmp3_S double_arith (0, 0, 0, 1, 2, 3) b = c"
    by (simp add: FromTangent_tmp3_S_def bb rc)
  have B: "FromTangent_S double_arith (0, 0, 0, 1, 2, 3) b = Inl DivisionByZero"
    using b by (simp add: FromTangent_S_def bb rc sc rb cb div_S_def)
  show ?thesis
    unfolding a_def [symmetric] b_def [symmetric] B3 sc
    using a b A3 A B by (simp add: rb cb)
qed

end
